theory Spec2Isabelle
  imports Main "HOL-Library.Sublist"
begin

section \<open>The record store of \<^verbatim>\<open>src/contexts/DataContext.tsx\<close>\<close>

text \<open>
  The data provider keeps six arrays in React state (users, tasks, clients, task types,
  chat messages, notifications) and exposes handlers that update them. A handler closes
  over the arrays of the render that created it and queues updater functions
  (\<^verbatim>\<open>setTasks(prev => ...)\<close>) that run against the latest state. Every operation
  below is therefore a function of two stores: the snapshot the closure reads, and the
  store the queued updaters transform. A handler invoked once per render has both equal
  to the current state, which is how the top-level operations are called here.

  Two values come from the browser and are parameters of the model: the clock
  (\<^verbatim>\<open>Date.now()\<close>, read once per handler) and the locale's date formatter
  (\<^verbatim>\<open>toLocaleDateString\<close>). A JavaScript string is modelled as a \<^typ>\<open>string\<close>,
  one \<^typ>\<open>char\<close> per UTF-16 code unit, so that \<^verbatim>\<open>length\<close> and
  \<^verbatim>\<open>substring\<close> count the same units. An optional property is an
  \<^typ>\<open>'a option\<close>, \<^const>\<open>None\<close> standing for \<^verbatim>\<open>undefined\<close>.
\<close>

subsection \<open>Data model\<close>

type_synonym date = int \<comment> \<open>milliseconds since the epoch\<close>

datatype Role = Admin | RegularUser

datatype TaskStatus = Pending | InProgress | Completed | Approved | Rejected

datatype Priority = Low | Medium | High | Urgent

datatype NotificationType = TaskNote | MessageNote | SystemNote | ApprovalNote

datatype TaskEvent = EvCreated | EvAssigned | EvUpdated | EvCompleted | EvOverdue

record User =
  u_id :: string
  u_name :: string
  u_email :: string
  u_role :: Role

record Client =
  c_id :: string
  c_name :: string

record Milestone =
  m_id :: string
  m_name :: string
  m_description :: string
  m_order :: int
  m_estimatedHours :: int

record TaskType =
  tt_id :: string
  tt_name :: string
  tt_description :: string
  tt_category :: string
  tt_estimatedHours :: int
  tt_isActive :: bool
  tt_milestones :: "Milestone list"
  tt_updatedAt :: "date option"

text \<open>\<^verbatim>\<open>Partial<TaskType>\<close>: every property may be absent.\<close>

record TaskTypePatch =
  ttp_id :: "string option"
  ttp_name :: "string option"
  ttp_description :: "string option"
  ttp_category :: "string option"
  ttp_estimatedHours :: "int option"
  ttp_isActive :: "bool option"
  ttp_milestones :: "Milestone list option"

record MilestoneProgress =
  mp_milestoneId :: string
  mp_completed :: bool
  mp_completedAt :: "date option"
  mp_completedById :: "string option"

record ActivityEntry =
  a_id :: string
  a_userId :: string
  a_userName :: string
  a_action :: string
  a_timestamp :: date

record Task =
  t_id :: string
  t_taskNumber :: string
  t_title :: string
  t_description :: string
  t_taskTypeId :: string
  t_clientId :: string
  t_assignedToId :: string
  t_assignedById :: string
  t_status :: TaskStatus
  t_priority :: Priority
  t_dueDate :: date
  t_createdAt :: date
  t_estimatedHours :: int
  t_actualHours :: "int option"
  t_isRecurring :: bool
  t_assignedUsers :: "string list option"
  t_activityLog :: "ActivityEntry list option"
  t_milestoneProgress :: "MilestoneProgress list option"
  t_updatedAt :: "date option"
  t_updatedById :: "string option"

text \<open>
  \<^verbatim>\<open>Partial<Task>\<close>, the patch of \<^verbatim>\<open>updateTask\<close>. The outer
  \<^const>\<open>None\<close> of a field is an absent property. A property that \<^verbatim>\<open>Task\<close>
  declares optional can also be present with the value \<^verbatim>\<open>undefined\<close>, which the
  spread copies like any other value: its field is an option of an option, and
  \<^term>\<open>Some None\<close> is that case. For a property \<^verbatim>\<open>Task\<close> requires, the patch
  is absent or carries a value, since \<^verbatim>\<open>undefined\<close> there would store a record
  that is no \<^verbatim>\<open>Task\<close>.
\<close>

record TaskPatch =
  p_id :: "string option"
  p_taskNumber :: "string option"
  p_title :: "string option"
  p_description :: "string option"
  p_taskTypeId :: "string option"
  p_clientId :: "string option"
  p_assignedToId :: "string option"
  p_assignedById :: "string option"
  p_status :: "TaskStatus option"
  p_priority :: "Priority option"
  p_dueDate :: "date option"
  p_createdAt :: "date option"
  p_estimatedHours :: "int option"
  p_actualHours :: "int option option"
  p_isRecurring :: "bool option"
  p_assignedUsers :: "string list option option"
  p_activityLog :: "ActivityEntry list option option"
  p_milestoneProgress :: "MilestoneProgress list option option"
  p_updatedAt :: "date option option"
  p_updatedById :: "string option option"

record ChatMessage =
  cm_id :: string
  cm_taskId :: string
  cm_userId :: string
  cm_message :: string
  cm_timestamp :: date
  cm_userName :: string

text \<open>
  \<^verbatim>\<open>Omit<Notification, 'id' | 'timestamp'>\<close> is the argument of
  \<^verbatim>\<open>addNotification\<close>; the stored notification extends it by the two stamped
  properties.
\<close>

record NotificationData =
  n_type :: NotificationType
  n_title :: string
  n_message :: string
  n_isRead :: bool
  n_userId :: string
  n_taskId :: "string option"
  n_priority :: "Priority option"

record Notification = NotificationData +
  n_id :: string
  n_timestamp :: date

record State =
  users :: "User list"
  tasks :: "Task list"
  clients :: "Client list"
  taskTypes :: "TaskType list"
  chatMessages :: "ChatMessage list"
  notifications :: "Notification list"

record Env =
  now :: nat
  toLocaleDateString :: "date \<Rightarrow> string"

subsection \<open>JavaScript string and number helpers\<close>

text \<open>\<^verbatim>\<open>Number.prototype.toString()\<close> on a non-negative integer.\<close>

fun toString :: "nat \<Rightarrow> string" where
  "toString n =
     (if n < 10 then [''0123456789'' ! n]
      else toString (n div 10) @ [''0123456789'' ! (n mod 10)])"

declare toString.simps [simp del]

definition padStart :: "nat \<Rightarrow> char \<Rightarrow> string \<Rightarrow> string" where
  "padStart n c s = replicate (n - length s) c @ s"

definition isDigit :: "char \<Rightarrow> bool" where
  "isDigit c = (c \<in> set ''0123456789'')"

text \<open>The value of a decimal digit: its position among the digits.\<close>

fun position :: "'a \<Rightarrow> 'a list \<Rightarrow> nat" where
  "position x [] = 0"
| "position x (y # ys) = (if x = y then 0 else Suc (position x ys))"

definition digitVal :: "char \<Rightarrow> nat" where
  "digitVal c = position c ''0123456789''"

text \<open>The regular expression \<^verbatim>\<open>/^T\d{3}$/\<close>.\<close>

definition testTaskNumber :: "string \<Rightarrow> bool" where
  "testTaskNumber s =
     (case s of
        [t, a, b, c] \<Rightarrow> t = CHR ''T'' \<and> isDigit a \<and> isDigit b \<and> isDigit c
      | _ \<Rightarrow> False)"

text \<open>
  \<^verbatim>\<open>parseInt\<close> on the leading run of decimal digits; \<^const>\<open>None\<close> is
  \<^verbatim>\<open>NaN\<close>. White space, signs and radix prefixes are left out: the only caller
  passes three digits.
\<close>

fun parseDigits :: "nat \<Rightarrow> string \<Rightarrow> nat" where
  "parseDigits acc [] = acc"
| "parseDigits acc (c # cs) =
     (if isDigit c then parseDigits (10 * acc + digitVal c) cs else acc)"

definition parseInt :: "string \<Rightarrow> nat option" where
  "parseInt s =
     (case s of [] \<Rightarrow> None
      | c # cs \<Rightarrow> if isDigit c then Some (parseDigits 0 s) else None)"

text \<open>\<^verbatim>\<open>Math.max(...xs)\<close>, called on a non-empty array only.\<close>

fun Math_max :: "nat list \<Rightarrow> nat" where
  "Math_max [] = 0"
| "Math_max (x # xs) = max x (Math_max xs)"

text \<open>\<^verbatim>\<open>String.prototype.includes\<close>.\<close>

fun str_includes :: "string \<Rightarrow> string \<Rightarrow> bool" where
  "str_includes [] sub = (sub = [])"
| "str_includes (c # cs) sub = (prefix sub (c # cs) \<or> str_includes cs sub)"

text \<open>\<^verbatim>\<open>s.replace(c, d)\<close> with a string pattern: the first occurrence only.\<close>

fun replaceFirst :: "char \<Rightarrow> char \<Rightarrow> string \<Rightarrow> string" where
  "replaceFirst c d [] = []"
| "replaceFirst c d (x # xs) = (if x = c then d # xs else x # replaceFirst c d xs)"

fun statusString :: "TaskStatus \<Rightarrow> string" where
  "statusString Pending = ''pending''"
| "statusString InProgress = ''in-progress''"
| "statusString Completed = ''completed''"
| "statusString Approved = ''approved''"
| "statusString Rejected = ''rejected''"

text \<open>\<^verbatim>\<open>x || d\<close> on strings: the empty string is falsy.\<close>

definition orElse :: "string \<Rightarrow> string \<Rightarrow> string" where
  "orElse x d = (if x = [] then d else x)"

text \<open>\<^verbatim>\<open>users.find(u => u.id === i)?.name || d\<close>\<close>

definition lookupUserName :: "User list \<Rightarrow> string \<Rightarrow> string \<Rightarrow> string" where
  "lookupUserName us i d =
     (case find (\<lambda>u. u_id u = i) us of None \<Rightarrow> d | Some u \<Rightarrow> orElse (u_name u) d)"

subsection \<open>Notifications\<close>

definition addNotification :: "Env \<Rightarrow> NotificationData \<Rightarrow> State \<Rightarrow> State" where
  "addNotification env notificationData st =
     st\<lparr>notifications := notifications st @
        [NotificationData.extend notificationData
           (Notification.fields (toString (now env)) (int (now env)))]\<rparr>"

definition markNotificationAsRead :: "string \<Rightarrow> State \<Rightarrow> State" where
  "markNotificationAsRead i st =
     st\<lparr>notifications :=
        map (\<lambda>notification.
               if n_id notification = i then notification\<lparr>n_isRead := True\<rparr>
               else notification)
          (notifications st)\<rparr>"

definition clearNotification :: "string \<Rightarrow> State \<Rightarrow> State" where
  "clearNotification i st =
     st\<lparr>notifications := filter (\<lambda>notification. n_id notification \<noteq> i) (notifications st)\<rparr>"

definition clearAllNotifications :: "string \<Rightarrow> State \<Rightarrow> State" where
  "clearAllNotifications userId st =
     st\<lparr>notifications :=
        filter (\<lambda>notification. n_userId notification \<noteq> userId) (notifications st)\<rparr>"

definition markAllNotificationsAsRead :: "string \<Rightarrow> State \<Rightarrow> State" where
  "markAllNotificationsAsRead userId st =
     st\<lparr>notifications :=
        map (\<lambda>notification.
               if n_userId notification = userId then notification\<lparr>n_isRead := True\<rparr>
               else notification)
          (notifications st)\<rparr>"

text \<open>
  \<^verbatim>\<open>generateTaskNotification\<close>: the \<^verbatim>\<open>switch\<close> fixes title, message, recipient
  and priority; nothing is recorded for an empty recipient. The names of the task type and
  the client are read from the closure's snapshot.
\<close>

definition taskTypeNameOf :: "State \<Rightarrow> Task \<Rightarrow> string" where
  "taskTypeNameOf snap task =
     (case find (\<lambda>tt. tt_id tt = t_taskTypeId task) (taskTypes snap) of
        None \<Rightarrow> ''Unknown Task''
      | Some tt \<Rightarrow> orElse (tt_name tt) ''Unknown Task'')"

definition clientNameOf :: "State \<Rightarrow> Task \<Rightarrow> string" where
  "clientNameOf snap task =
     (case find (\<lambda>c. c_id c = t_clientId task) (clients snap) of
        None \<Rightarrow> ''Unknown Client''
      | Some c \<Rightarrow> orElse (c_name c) ''Unknown Client'')"

definition generateTaskNotification ::
  "Env \<Rightarrow> State \<Rightarrow> Task \<Rightarrow> TaskEvent \<Rightarrow> State \<Rightarrow> State" where
  "generateTaskNotification env snap task ev st =
     (let taskTypeName = taskTypeNameOf snap task;
          clientName = clientNameOf snap task;
          (title, message, targetUserId, priority) =
            (case ev of
               EvCreated \<Rightarrow>
                 (''New task created'', taskTypeName @ '' created for '' @ clientName,
                  t_assignedToId task, t_priority task)
             | EvAssigned \<Rightarrow>
                 (''Task assigned to you'', taskTypeName @ '' for '' @ clientName,
                  t_assignedToId task, t_priority task)
             | EvUpdated \<Rightarrow>
                 (''Task updated'', taskTypeName @ '' has been updated'',
                  t_assignedToId task, t_priority task)
             | EvCompleted \<Rightarrow>
                 (''Task completed'', taskTypeName @ '' has been marked as completed'',
                  t_assignedById task, t_priority task)
             | EvOverdue \<Rightarrow>
                 (''Task overdue'',
                  taskTypeName @ '' was due on '' @ toLocaleDateString env (t_dueDate task),
                  t_assignedToId task, Urgent))
      in if targetUserId \<noteq> [] then
           addNotification env
             \<lparr>n_type = TaskNote, n_title = title, n_message = message, n_isRead = False,
              n_userId = targetUserId, n_taskId = Some (t_id task),
              n_priority = Some priority\<rparr> st
         else st)"

text \<open>\<^verbatim>\<open>generateMessageNotification\<close>\<close>

definition generateMessageNotification ::
  "Env \<Rightarrow> State \<Rightarrow> ChatMessage \<Rightarrow> State \<Rightarrow> State" where
  "generateMessageNotification env snap message st =
     (case find (\<lambda>t. t_id t = cm_taskId message) (tasks snap) of
        None \<Rightarrow> st
      | Some task \<Rightarrow>
          (let senderName = lookupUserName (users snap) (cm_userId message) ''Unknown User'';
               usersToNotify =
                 filter (\<lambda>i. i \<noteq> cm_userId message) [t_assignedToId task, t_assignedById task]
           in fold (\<lambda>userId st'.
                      if userId \<noteq> [] then
                        addNotification env
                          \<lparr>n_type = MessageNote,
                           n_title = ''New message in '' @ t_title task,
                           n_message = senderName @ '': '' @ take 50 (cm_message message) @
                             (if length (cm_message message) > 50 then ''...'' else ''''),
                           n_isRead = False, n_userId = userId, n_taskId = Some (t_id task),
                           n_priority = None\<rparr> st'
                      else st')
                usersToNotify st))"

subsection \<open>Tasks\<close>

text \<open>\<^verbatim>\<open>generateTaskNumber\<close>\<close>

definition generateTaskNumber :: "Task list \<Rightarrow> string" where
  "generateTaskNumber ts =
     (let existingNumbers =
            List.map_filter parseInt
              (map (drop 1)
                 (filter (\<lambda>num. num \<noteq> [] \<and> testTaskNumber num) (map t_taskNumber ts)));
          nextNumber =
            (if length existingNumbers > 0 then Math_max existingNumbers + 1 else 1)
      in ''T'' @ padStart 3 (CHR ''0'') (toString nextNumber))"

text \<open>
  \<^verbatim>\<open>addTask\<close>. The argument is spread into the new task and five properties are then
  overwritten, so it is a task whose \<^verbatim>\<open>id\<close>, \<^verbatim>\<open>taskNumber\<close> and
  \<^verbatim>\<open>createdAt\<close> do not matter.
\<close>

definition addTask :: "Env \<Rightarrow> Task \<Rightarrow> State \<Rightarrow> State" where
  "addTask env taskData s =
     (let newTask = taskData
            \<lparr>t_id := toString (now env),
             t_taskNumber := generateTaskNumber (tasks s),
             t_createdAt := int (now env),
             t_assignedUsers :=
               Some (case t_assignedUsers taskData of
                       Some us \<Rightarrow> us
                     | None \<Rightarrow> [t_assignedToId taskData]),
             t_activityLog :=
               Some [\<lparr>a_id = ''1'', a_userId = t_assignedById taskData,
                      a_userName = lookupUserName (users s) (t_assignedById taskData) ''Unknown'',
                      a_action = ''Task created and assigned to '' @
                        lookupUserName (users s) (t_assignedToId taskData) ''Unknown'',
                      a_timestamp = int (now env)\<rparr>]\<rparr>;
          s1 = s\<lparr>tasks := tasks s @ [newTask]\<rparr>;
          s2 = generateTaskNotification env s newTask EvCreated s1
      in generateTaskNotification env s newTask EvAssigned s2)"

text \<open>
  The shallow merge \<^verbatim>\<open>{ ...originalTask, ...updates }\<close>: a property the patch
  has replaces the task's, whatever its value; an absent one leaves it.
\<close>

definition patched :: "'a option \<Rightarrow> 'a \<Rightarrow> 'a" where
  "patched u x = (case u of None \<Rightarrow> x | Some y \<Rightarrow> y)"

definition mergeTask :: "Task \<Rightarrow> TaskPatch \<Rightarrow> Task" where
  "mergeTask t u =
     \<lparr>t_id = patched (p_id u) (t_id t),
      t_taskNumber = patched (p_taskNumber u) (t_taskNumber t),
      t_title = patched (p_title u) (t_title t),
      t_description = patched (p_description u) (t_description t),
      t_taskTypeId = patched (p_taskTypeId u) (t_taskTypeId t),
      t_clientId = patched (p_clientId u) (t_clientId t),
      t_assignedToId = patched (p_assignedToId u) (t_assignedToId t),
      t_assignedById = patched (p_assignedById u) (t_assignedById t),
      t_status = patched (p_status u) (t_status t),
      t_priority = patched (p_priority u) (t_priority t),
      t_dueDate = patched (p_dueDate u) (t_dueDate t),
      t_createdAt = patched (p_createdAt u) (t_createdAt t),
      t_estimatedHours = patched (p_estimatedHours u) (t_estimatedHours t),
      t_actualHours = patched (p_actualHours u) (t_actualHours t),
      t_isRecurring = patched (p_isRecurring u) (t_isRecurring t),
      t_assignedUsers = patched (p_assignedUsers u) (t_assignedUsers t),
      t_activityLog = patched (p_activityLog u) (t_activityLog t),
      t_milestoneProgress = patched (p_milestoneProgress u) (t_milestoneProgress t),
      t_updatedAt = patched (p_updatedAt u) (t_updatedAt t),
      t_updatedById = patched (p_updatedById u) (t_updatedById t)\<rparr>"

text \<open>\<^verbatim>\<open>task.activityLog || []\<close>\<close>

definition logOf :: "Task \<Rightarrow> ActivityEntry list" where
  "logOf task = (case t_activityLog task of None \<Rightarrow> [] | Some l \<Rightarrow> l)"

text \<open>
  The entry \<^verbatim>\<open>updateTask\<close> appends on a status change; the acting user is
  \<^verbatim>\<open>updates.updatedById || originalTask.assignedById\<close>.
\<close>

definition activityEntry :: "Env \<Rightarrow> State \<Rightarrow> Task \<Rightarrow> TaskPatch \<Rightarrow> TaskStatus \<Rightarrow> ActivityEntry" where
  "activityEntry env snap originalTask updates newStatus =
     (let actor = (case p_updatedById updates of
                     Some (Some i) \<Rightarrow> orElse i (t_assignedById originalTask)
                   | _ \<Rightarrow> t_assignedById originalTask)
      in \<lparr>a_id = toString (now env), a_userId = actor,
          a_userName = lookupUserName (users snap) actor ''Unknown'',
          a_action = ''Status changed from '' @
            replaceFirst (CHR ''-'') (CHR '' '') (statusString (t_status originalTask)) @
            '' to '' @ replaceFirst (CHR ''-'') (CHR '' '') (statusString newStatus),
          a_timestamp = int (now env)\<rparr>)"

definition updatedTaskOf :: "Env \<Rightarrow> State \<Rightarrow> Task \<Rightarrow> TaskPatch \<Rightarrow> Task" where
  "updatedTaskOf env snap originalTask updates =
     (case p_status updates of
        None \<Rightarrow> mergeTask originalTask updates
      | Some newStatus \<Rightarrow>
          if newStatus \<noteq> t_status originalTask then
            (mergeTask originalTask updates)
              \<lparr>t_activityLog :=
                 Some (logOf originalTask @
                       [activityEntry env snap originalTask updates newStatus])\<rparr>
          else mergeTask originalTask updates)"

text \<open>\<^verbatim>\<open>updateTask\<close>\<close>

definition updateTask :: "Env \<Rightarrow> string \<Rightarrow> TaskPatch \<Rightarrow> State \<Rightarrow> State" where
  "updateTask env i updates s =
     (case find (\<lambda>t. t_id t = i) (tasks s) of
        None \<Rightarrow> s
      | Some originalTask \<Rightarrow>
          (let updatedTask = updatedTaskOf env s originalTask updates;
               s1 = s\<lparr>tasks := map (\<lambda>task. if t_id task = i then updatedTask else task) (tasks s)\<rparr>
           in case p_status updates of
                None \<Rightarrow> s1
              | Some newStatus \<Rightarrow>
                  if newStatus = Completed then
                    generateTaskNotification env s updatedTask EvCompleted s1
                  else generateTaskNotification env s updatedTask EvUpdated s1))"

definition deleteTask :: "string \<Rightarrow> State \<Rightarrow> State" where
  "deleteTask i s = s\<lparr>tasks := filter (\<lambda>task. t_id task \<noteq> i) (tasks s)\<rparr>"

subsection \<open>Task types and milestone synchronisation\<close>

definition mergeTaskType :: "TaskType \<Rightarrow> TaskTypePatch \<Rightarrow> TaskType" where
  "mergeTaskType tt u =
     \<lparr>tt_id = patched (ttp_id u) (tt_id tt),
      tt_name = patched (ttp_name u) (tt_name tt),
      tt_description = patched (ttp_description u) (tt_description tt),
      tt_category = patched (ttp_category u) (tt_category tt),
      tt_estimatedHours = patched (ttp_estimatedHours u) (tt_estimatedHours tt),
      tt_isActive = patched (ttp_isActive u) (tt_isActive tt),
      tt_milestones = patched (ttp_milestones u) (tt_milestones tt),
      tt_updatedAt = tt_updatedAt tt\<rparr>"

text \<open>\<^verbatim>\<open>task.milestoneProgress || []\<close>\<close>

definition progressOf :: "Task \<Rightarrow> MilestoneProgress list" where
  "progressOf task = (case t_milestoneProgress task of None \<Rightarrow> [] | Some l \<Rightarrow> l)"

text \<open>\<^verbatim>\<open>syncTaskMilestones\<close>\<close>

definition syncTaskMilestones :: "Env \<Rightarrow> string \<Rightarrow> Milestone list \<Rightarrow> State \<Rightarrow> State" where
  "syncTaskMilestones env taskTypeId newMilestones st =
     st\<lparr>tasks :=
        map (\<lambda>task.
               if t_taskTypeId task = taskTypeId then
                 (let currentProgress = progressOf task;
                      updatedProgress =
                        filter (\<lambda>progress.
                                  list_ex (\<lambda>milestone. m_id milestone = mp_milestoneId progress)
                                    newMilestones)
                          currentProgress
                  in task\<lparr>t_milestoneProgress := Some updatedProgress,
                          t_updatedAt := Some (int (now env))\<rparr>)
               else task)
          (tasks st)\<rparr>"

text \<open>
  \<^verbatim>\<open>notifyMilestoneUpdates\<close>: one notification per user over all affected tasks; the
  accumulator pairs the \<^verbatim>\<open>Set\<close> of users already notified with the store.
\<close>

definition notifyUser :: "Env \<Rightarrow> string \<Rightarrow> string \<Rightarrow> string set \<times> State \<Rightarrow> string set \<times> State" where
  "notifyUser env taskTypeName userId acc =
     (if userId \<in> fst acc then acc
      else (insert userId (fst acc),
            addNotification env
              \<lparr>n_type = SystemNote, n_title = ''Task milestones updated'',
               n_message = ''Milestones for \"'' @ taskTypeName @
                 ''\" tasks have been updated. Please review your tasks.'',
               n_isRead = False, n_userId = userId, n_taskId = None,
               n_priority = Some Medium\<rparr> (snd acc)))"

definition notifyTask :: "Env \<Rightarrow> string \<Rightarrow> Task \<Rightarrow> string set \<times> State \<Rightarrow> string set \<times> State" where
  "notifyTask env taskTypeName task acc =
     (let acc1 = (if t_assignedToId task \<noteq> [] then
                    notifyUser env taskTypeName (t_assignedToId task) acc
                  else acc)
      in case t_assignedUsers task of
           None \<Rightarrow> acc1
         | Some us \<Rightarrow> fold (notifyUser env taskTypeName) us acc1)"

definition notifyMilestoneUpdates :: "Env \<Rightarrow> State \<Rightarrow> string \<Rightarrow> string \<Rightarrow> State \<Rightarrow> State" where
  "notifyMilestoneUpdates env snap taskTypeId taskTypeName st =
     (let affectedTasks = filter (\<lambda>task. t_taskTypeId task = taskTypeId) (tasks snap)
      in snd (fold (notifyTask env taskTypeName) affectedTasks ({}, st)))"

text \<open>\<^verbatim>\<open>updateTaskType\<close>\<close>

definition updateTaskType :: "Env \<Rightarrow> string \<Rightarrow> TaskTypePatch \<Rightarrow> State \<Rightarrow> State" where
  "updateTaskType env i updates s =
     (let originalTaskType = find (\<lambda>tt. tt_id tt = i) (taskTypes s);
          s1 = s\<lparr>taskTypes :=
                  map (\<lambda>taskType.
                         if tt_id taskType = i then
                           (mergeTaskType taskType updates)\<lparr>tt_updatedAt := Some (int (now env))\<rparr>
                         else taskType)
                    (taskTypes s)\<rparr>
      in case (ttp_milestones updates, originalTaskType) of
           (Some newMilestones, Some original) \<Rightarrow>
             notifyMilestoneUpdates env s i (tt_name original)
               (syncTaskMilestones env i newMilestones s1)
         | _ \<Rightarrow> s1)"

subsection \<open>Chat messages\<close>

text \<open>\<^verbatim>\<open>addChatMessage\<close>: the argument's \<^verbatim>\<open>id\<close> is overwritten.\<close>

definition addChatMessage :: "Env \<Rightarrow> ChatMessage \<Rightarrow> State \<Rightarrow> State" where
  "addChatMessage env messageData s =
     (let newMessage = messageData\<lparr>cm_id := toString (now env)\<rparr>;
          s1 = s\<lparr>chatMessages := chatMessages s @ [newMessage]\<rparr>
      in generateMessageNotification env s newMessage s1)"

subsection \<open>The overdue scan\<close>

definition isOverdue :: "Env \<Rightarrow> Task \<Rightarrow> bool" where
  "isOverdue env task =
     (t_dueDate task < int (now env) \<and> t_status task \<noteq> Completed \<and> t_status task \<noteq> Approved)"

definition hasOverdueNotification :: "Notification list \<Rightarrow> Task \<Rightarrow> bool" where
  "hasOverdueNotification ns task =
     list_ex (\<lambda>n. n_taskId n = Some (t_id task) \<and> n_type n = TaskNote \<and>
                  str_includes (n_title n) ''overdue'') ns"

text \<open>
  \<^verbatim>\<open>checkOverdueTasks\<close>, the body of the effect that runs after every change of the
  tasks or the notifications. The test for an earlier notification reads the snapshot.
\<close>

definition checkOverdueTasks :: "Env \<Rightarrow> State \<Rightarrow> State" where
  "checkOverdueTasks env s =
     fold (\<lambda>task st.
             if isOverdue env task then
               (if \<not> hasOverdueNotification (notifications s) task then
                  generateTaskNotification env s task EvOverdue st
                else st)
             else st)
       (tasks s) s"

text \<open>
  The notification the overdue arm of \<^verbatim>\<open>generateTaskNotification\<close> records for a
  task, and the list of those a scan over some tasks records; both are used to state what
  \<^const>\<open>checkOverdueTasks\<close> adds to the store.
\<close>

definition overdueNotification :: "Env \<Rightarrow> State \<Rightarrow> Task \<Rightarrow> Notification" where
  "overdueNotification env snap task =
     NotificationData.extend
       \<lparr>n_type = TaskNote, n_title = ''Task overdue'',
        n_message = taskTypeNameOf snap task @ '' was due on '' @
          toLocaleDateString env (t_dueDate task),
        n_isRead = False, n_userId = t_assignedToId task, n_taskId = Some (t_id task),
        n_priority = Some Urgent\<rparr>
       (Notification.fields (toString (now env)) (int (now env)))"

definition overdueEmitted :: "Env \<Rightarrow> State \<Rightarrow> Task list \<Rightarrow> Notification list" where
  "overdueEmitted env snap ts =
     concat
       (map (\<lambda>task.
               if isOverdue env task \<and> \<not> hasOverdueNotification (notifications snap) task \<and>
                  t_assignedToId task \<noteq> []
               then [overdueNotification env snap task]
               else [])
          ts)"

subsection \<open>Sample data\<close>

text \<open>
  A small store in the shape of the provider's initial data, used to run the operations
  on concrete inputs. Times are small numbers rather than real epoch values.
\<close>

definition sampleEnv :: Env where
  "sampleEnv = \<lparr>now = 5000, toLocaleDateString = (\<lambda>d. ''7/30/2024'')\<rparr>"

definition sampleUsers :: "User list" where
  "sampleUsers =
     [\<lparr>u_id = ''1'', u_name = ''Admin User'', u_email = ''admin@ca.com'', u_role = Admin\<rparr>,
      \<lparr>u_id = ''2'', u_name = ''John Doe'', u_email = ''john@ca.com'', u_role = RegularUser\<rparr>,
      \<lparr>u_id = ''3'', u_name = ''Jane Smith'', u_email = ''jane@ca.com'', u_role = RegularUser\<rparr>]"

definition sampleClients :: "Client list" where
  "sampleClients =
     [\<lparr>c_id = ''1'', c_name = ''ABC Limited''\<rparr>, \<lparr>c_id = ''2'', c_name = ''XYZ Corporation''\<rparr>]"

definition sampleMilestones :: "Milestone list" where
  "sampleMilestones =
     [\<lparr>m_id = ''1'', m_name = ''Document Collection'', m_description = ''Collect documents'',
       m_order = 1, m_estimatedHours = 2\<rparr>,
      \<lparr>m_id = ''2'', m_name = ''Data Entry'', m_description = ''Enter data'',
       m_order = 2, m_estimatedHours = 3\<rparr>]"

definition sampleTaskTypes :: "TaskType list" where
  "sampleTaskTypes =
     [\<lparr>tt_id = ''1'', tt_name = ''Tax Return Preparation'',
       tt_description = ''Prepare individual and corporate tax returns'', tt_category = ''Tax'',
       tt_estimatedHours = 8, tt_isActive = True, tt_milestones = sampleMilestones,
       tt_updatedAt = Some 100\<rparr>]"

definition sampleTask :: Task where
  "sampleTask =
     \<lparr>t_id = ''1'', t_taskNumber = ''T001'', t_title = ''Tax Return Preparation'',
      t_description = ''Prepare tax returns for Q4 2024'', t_taskTypeId = ''1'',
      t_clientId = ''2'', t_assignedToId = ''2'', t_assignedById = ''1'', t_status = Pending,
      t_priority = High, t_dueDate = 3000, t_createdAt = 1000, t_estimatedHours = 8,
      t_actualHours = Some 0, t_isRecurring = False, t_assignedUsers = Some [''2''],
      t_activityLog =
        Some [\<lparr>a_id = ''1'', a_userId = ''1'', a_userName = ''Admin User'',
               a_action = ''Task created and assigned to John Doe'', a_timestamp = 1000\<rparr>],
      t_milestoneProgress =
        Some [\<lparr>mp_milestoneId = ''1'', mp_completed = True, mp_completedAt = Some 1500,
               mp_completedById = Some ''2''\<rparr>,
              \<lparr>mp_milestoneId = ''2'', mp_completed = False, mp_completedAt = None,
               mp_completedById = None\<rparr>],
      t_updatedAt = None, t_updatedById = None\<rparr>"

definition sampleState :: State where
  "sampleState =
     \<lparr>users = sampleUsers, tasks = [sampleTask], clients = sampleClients,
      taskTypes = sampleTaskTypes, chatMessages = [], notifications = []\<rparr>"

text \<open>The notification the overdue scan records for the sample task.\<close>

definition sampleOverdueNotification :: Notification where
  "sampleOverdueNotification =
     \<lparr>n_type = TaskNote, n_title = ''Task overdue'',
      n_message = ''Tax Return Preparation was due on 7/30/2024'', n_isRead = False,
      n_userId = ''2'', n_taskId = Some ''1'', n_priority = Some Urgent,
      n_id = ''5000'', n_timestamp = 5000\<rparr>"

text \<open>The patch \<^verbatim>\<open>{}\<close>.\<close>

definition emptyPatch :: TaskPatch where
  "emptyPatch =
     \<lparr>p_id = None, p_taskNumber = None, p_title = None, p_description = None,
      p_taskTypeId = None, p_clientId = None, p_assignedToId = None, p_assignedById = None,
      p_status = None, p_priority = None, p_dueDate = None, p_createdAt = None,
      p_estimatedHours = None, p_actualHours = None, p_isRecurring = None,
      p_assignedUsers = None, p_activityLog = None, p_milestoneProgress = None,
      p_updatedAt = None, p_updatedById = None\<rparr>"

definition emptyTypePatch :: TaskTypePatch where
  "emptyTypePatch =
     \<lparr>ttp_id = None, ttp_name = None, ttp_description = None, ttp_category = None,
      ttp_estimatedHours = None, ttp_isActive = None, ttp_milestones = None\<rparr>"

definition sampleMessage :: ChatMessage where
  "sampleMessage =
     \<lparr>cm_id = [], cm_taskId = ''1'', cm_userId = ''2'',
      cm_message = ''Understood. I will begin reviewing the documents today.'',
      cm_timestamp = 4000, cm_userName = ''John Doe''\<rparr>"

section \<open>Properties\<close>

subsection \<open>What an operation leaves alone\<close>

lemma stamped_fields [simp]:
  "n_type (NotificationData.extend nd (Notification.fields i ts)) = n_type nd"
  "n_title (NotificationData.extend nd (Notification.fields i ts)) = n_title nd"
  "n_message (NotificationData.extend nd (Notification.fields i ts)) = n_message nd"
  "n_isRead (NotificationData.extend nd (Notification.fields i ts)) = n_isRead nd"
  "n_userId (NotificationData.extend nd (Notification.fields i ts)) = n_userId nd"
  "n_taskId (NotificationData.extend nd (Notification.fields i ts)) = n_taskId nd"
  "n_priority (NotificationData.extend nd (Notification.fields i ts)) = n_priority nd"
  "n_id (NotificationData.extend nd (Notification.fields i ts)) = i"
  "n_timestamp (NotificationData.extend nd (Notification.fields i ts)) = ts"
  by (simp_all add: NotificationData.defs Notification.defs)

lemma addNotification_frame [simp]:
  "users (addNotification env nd st) = users st"
  "tasks (addNotification env nd st) = tasks st"
  "clients (addNotification env nd st) = clients st"
  "taskTypes (addNotification env nd st) = taskTypes st"
  "chatMessages (addNotification env nd st) = chatMessages st"
  by (simp_all add: addNotification_def)

lemma notifications_addNotification:
  "notifications (addNotification env nd st) =
     notifications st @
       [NotificationData.extend nd (Notification.fields (toString (now env)) (int (now env)))]"
  by (simp add: addNotification_def)

text \<open>The five arms of the \<^verbatim>\<open>switch\<close>, one equation each.\<close>

lemma generateTaskNotification_created:
  "generateTaskNotification env snap task EvCreated st =
     (if t_assignedToId task \<noteq> [] then
        addNotification env
          \<lparr>n_type = TaskNote, n_title = ''New task created'',
           n_message = taskTypeNameOf snap task @ '' created for '' @ clientNameOf snap task,
           n_isRead = False, n_userId = t_assignedToId task, n_taskId = Some (t_id task),
           n_priority = Some (t_priority task)\<rparr> st
      else st)"
  by (simp add: generateTaskNotification_def Let_def)

lemma generateTaskNotification_assigned:
  "generateTaskNotification env snap task EvAssigned st =
     (if t_assignedToId task \<noteq> [] then
        addNotification env
          \<lparr>n_type = TaskNote, n_title = ''Task assigned to you'',
           n_message = taskTypeNameOf snap task @ '' for '' @ clientNameOf snap task,
           n_isRead = False, n_userId = t_assignedToId task, n_taskId = Some (t_id task),
           n_priority = Some (t_priority task)\<rparr> st
      else st)"
  by (simp add: generateTaskNotification_def Let_def)

lemma generateTaskNotification_updated:
  "generateTaskNotification env snap task EvUpdated st =
     (if t_assignedToId task \<noteq> [] then
        addNotification env
          \<lparr>n_type = TaskNote, n_title = ''Task updated'',
           n_message = taskTypeNameOf snap task @ '' has been updated'',
           n_isRead = False, n_userId = t_assignedToId task, n_taskId = Some (t_id task),
           n_priority = Some (t_priority task)\<rparr> st
      else st)"
  by (simp add: generateTaskNotification_def Let_def)

lemma generateTaskNotification_completed:
  "generateTaskNotification env snap task EvCompleted st =
     (if t_assignedById task \<noteq> [] then
        addNotification env
          \<lparr>n_type = TaskNote, n_title = ''Task completed'',
           n_message = taskTypeNameOf snap task @ '' has been marked as completed'',
           n_isRead = False, n_userId = t_assignedById task, n_taskId = Some (t_id task),
           n_priority = Some (t_priority task)\<rparr> st
      else st)"
  by (simp add: generateTaskNotification_def Let_def)

lemma generateTaskNotification_overdue:
  "generateTaskNotification env snap task EvOverdue st =
     (if t_assignedToId task \<noteq> [] then
        addNotification env
          \<lparr>n_type = TaskNote, n_title = ''Task overdue'',
           n_message = taskTypeNameOf snap task @ '' was due on '' @
             toLocaleDateString env (t_dueDate task),
           n_isRead = False, n_userId = t_assignedToId task, n_taskId = Some (t_id task),
           n_priority = Some Urgent\<rparr> st
      else st)"
  by (simp add: generateTaskNotification_def Let_def)

lemmas generateTaskNotification_arms =
  generateTaskNotification_created generateTaskNotification_assigned
  generateTaskNotification_updated generateTaskNotification_completed
  generateTaskNotification_overdue

lemma generateTaskNotification_frame [simp]:
  "users (generateTaskNotification env snap task ev st) = users st"
  "tasks (generateTaskNotification env snap task ev st) = tasks st"
  "clients (generateTaskNotification env snap task ev st) = clients st"
  "taskTypes (generateTaskNotification env snap task ev st) = taskTypes st"
  "chatMessages (generateTaskNotification env snap task ev st) = chatMessages st"
  by (cases ev; simp add: generateTaskNotification_arms)+

lemma notifyUser_frame [simp]:
  "users (snd (notifyUser env name u acc)) = users (snd acc)"
  "tasks (snd (notifyUser env name u acc)) = tasks (snd acc)"
  "clients (snd (notifyUser env name u acc)) = clients (snd acc)"
  "taskTypes (snd (notifyUser env name u acc)) = taskTypes (snd acc)"
  "chatMessages (snd (notifyUser env name u acc)) = chatMessages (snd acc)"
  by (simp_all add: notifyUser_def)

lemma fold_notifyUser_frame [simp]:
  "users (snd (fold (notifyUser env name) us acc)) = users (snd acc)"
  "tasks (snd (fold (notifyUser env name) us acc)) = tasks (snd acc)"
  "clients (snd (fold (notifyUser env name) us acc)) = clients (snd acc)"
  "taskTypes (snd (fold (notifyUser env name) us acc)) = taskTypes (snd acc)"
  "chatMessages (snd (fold (notifyUser env name) us acc)) = chatMessages (snd acc)"
  by (induction us arbitrary: acc; simp)+

lemma notifyTask_frame [simp]:
  "users (snd (notifyTask env name task acc)) = users (snd acc)"
  "tasks (snd (notifyTask env name task acc)) = tasks (snd acc)"
  "clients (snd (notifyTask env name task acc)) = clients (snd acc)"
  "taskTypes (snd (notifyTask env name task acc)) = taskTypes (snd acc)"
  "chatMessages (snd (notifyTask env name task acc)) = chatMessages (snd acc)"
  by (simp_all add: notifyTask_def Let_def split: option.split)

lemma fold_notifyTask_frame [simp]:
  "users (snd (fold (notifyTask env name) ts acc)) = users (snd acc)"
  "tasks (snd (fold (notifyTask env name) ts acc)) = tasks (snd acc)"
  "clients (snd (fold (notifyTask env name) ts acc)) = clients (snd acc)"
  "taskTypes (snd (fold (notifyTask env name) ts acc)) = taskTypes (snd acc)"
  "chatMessages (snd (fold (notifyTask env name) ts acc)) = chatMessages (snd acc)"
  by (induction ts arbitrary: acc; simp)+

lemma notifyMilestoneUpdates_frame [simp]:
  "users (notifyMilestoneUpdates env snap i name st) = users st"
  "tasks (notifyMilestoneUpdates env snap i name st) = tasks st"
  "clients (notifyMilestoneUpdates env snap i name st) = clients st"
  "taskTypes (notifyMilestoneUpdates env snap i name st) = taskTypes st"
  "chatMessages (notifyMilestoneUpdates env snap i name st) = chatMessages st"
  by (simp_all add: notifyMilestoneUpdates_def Let_def)

lemmas sample_defs =
  sampleEnv_def sampleUsers_def sampleClients_def sampleMilestones_def sampleTaskTypes_def
  sampleTask_def sampleState_def sampleOverdueNotification_def emptyPatch_def
  emptyTypePatch_def sampleMessage_def

subsection \<open>Marking all notifications of a user as read\<close>

text \<open>
  Claim C8. \<^verbatim>\<open>markAllNotificationsAsRead(userId)\<close> is idempotent: applied once it
  keeps the number and the order of the notifications, sets \<^verbatim>\<open>isRead\<close> on exactly
  those whose \<^verbatim>\<open>userId\<close> is the argument and changes nothing else of them, leaves
  every other notification and every other collection as it was; applied a second time it
  gives the identical store.
\<close>

theorem markAllNotificationsAsRead_idempotent:
  "markAllNotificationsAsRead userId (markAllNotificationsAsRead userId st) =
     markAllNotificationsAsRead userId st \<and>
   length (notifications (markAllNotificationsAsRead userId st)) = length (notifications st) \<and>
   (\<forall>k < length (notifications st).
      notifications (markAllNotificationsAsRead userId st) ! k =
        (if n_userId (notifications st ! k) = userId
         then (notifications st ! k)\<lparr>n_isRead := True\<rparr>
         else notifications st ! k)) \<and>
   users (markAllNotificationsAsRead userId st) = users st \<and>
   tasks (markAllNotificationsAsRead userId st) = tasks st \<and>
   clients (markAllNotificationsAsRead userId st) = clients st \<and>
   taskTypes (markAllNotificationsAsRead userId st) = taskTypes st \<and>
   chatMessages (markAllNotificationsAsRead userId st) = chatMessages st"
  by (simp add: markAllNotificationsAsRead_def)

theorem markAllNotificationsAsRead_idempotent_witness:
  "(1::nat) < length
      (notifications
         (sampleState\<lparr>notifications :=
            [sampleOverdueNotification, sampleOverdueNotification\<lparr>n_userId := ''3''\<rparr>]\<rparr>)) \<and>
   map n_isRead
     (notifications
        (markAllNotificationsAsRead ''2''
           (sampleState\<lparr>notifications :=
              [sampleOverdueNotification, sampleOverdueNotification\<lparr>n_userId := ''3''\<rparr>]\<rparr>))) =
     [True, False] \<and>
   notifications
     (markAllNotificationsAsRead ''2''
        (sampleState\<lparr>notifications :=
           [sampleOverdueNotification, sampleOverdueNotification\<lparr>n_userId := ''3''\<rparr>]\<rparr>)) ! 1 =
     sampleOverdueNotification\<lparr>n_userId := ''3''\<rparr>"
proof -
  let ?st = "sampleState\<lparr>notifications :=
    [sampleOverdueNotification, sampleOverdueNotification\<lparr>n_userId := ''3''\<rparr>]\<rparr>"
  let ?ns = "notifications (markAllNotificationsAsRead ''2'' ?st)"
  have len: "length ?ns = 2"
    using markAllNotificationsAsRead_idempotent [of "''2''" ?st] by simp
  have at: "\<forall>k < 2. ?ns ! k =
      (if n_userId (notifications ?st ! k) = ''2''
       then (notifications ?st ! k)\<lparr>n_isRead := True\<rparr> else notifications ?st ! k)"
    using markAllNotificationsAsRead_idempotent [of "''2''" ?st] by simp
  have k0: "?ns ! 0 = sampleOverdueNotification\<lparr>n_isRead := True\<rparr>"
    using at by (simp add: sampleOverdueNotification_def)
  have k1: "?ns ! 1 = sampleOverdueNotification\<lparr>n_userId := ''3''\<rparr>"
    using at by (simp add: sampleOverdueNotification_def)
  have "?ns = [?ns ! 0, ?ns ! 1]"
    using len by (cases ?ns; simp; cases "tl ?ns"; simp)
  then have "map n_isRead ?ns = [True, False]"
    using k0 k1 by (simp add: sampleOverdueNotification_def)
  then show ?thesis
    using k1 by simp
qed

subsection \<open>An id that names no task\<close>

text \<open>
  Claim C6. When no task has the id, \<^verbatim>\<open>updateTask(id, patch)\<close> and
  \<^verbatim>\<open>deleteTask(id)\<close> return the store they were given: every collection is
  unchanged and no notification is recorded. Both are total functions, so neither raises.
\<close>

theorem updateTask_deleteTask_absent_id:
  assumes "i \<notin> set (map t_id (tasks s))"
  shows "updateTask env i updates s = s \<and> deleteTask i s = s"
proof -
  have "find (\<lambda>t. t_id t = i) (tasks s) = None"
    using assms by (auto simp: find_None_iff)
  moreover have "filter (\<lambda>task. t_id task \<noteq> i) (tasks s) = tasks s"
    using assms by (auto simp: filter_id_conv)
  ultimately show ?thesis
    by (simp add: updateTask_def deleteTask_def)
qed

theorem updateTask_deleteTask_absent_id_witness:
  "''99'' \<notin> set (map t_id (tasks sampleState)) \<and>
   updateTask sampleEnv ''99'' (emptyPatch\<lparr>p_status := Some Completed\<rparr>) sampleState =
     sampleState \<and>
   deleteTask ''99'' sampleState = sampleState"
proof -
  have "''99'' \<notin> set (map t_id (tasks sampleState))"
    by (simp add: sampleState_def sampleTask_def)
  then show ?thesis
    using updateTask_deleteTask_absent_id
      [of "''99''" sampleState sampleEnv "emptyPatch\<lparr>p_status := Some Completed\<rparr>"]
    by simp
qed

subsection \<open>Creating a task\<close>

text \<open>
  Claim C10. The task \<^verbatim>\<open>addTask\<close> stores is appended to the tasks; when the input
  leaves \<^verbatim>\<open>assignedUsers\<close> undefined, the stored list is the one-element list of
  the input's \<^verbatim>\<open>assignedToId\<close>, and a list the input supplies is stored as it is.
\<close>

theorem addTask_assignedUsers:
  "\<exists>newTask.
     tasks (addTask env taskData s) = tasks s @ [newTask] \<and>
     (t_assignedUsers taskData = None \<longrightarrow>
        t_assignedUsers newTask = Some [t_assignedToId taskData]) \<and>
     (\<forall>us. t_assignedUsers taskData = Some us \<longrightarrow> t_assignedUsers newTask = Some us)"
  by (simp add: addTask_def Let_def)

theorem addTask_assignedUsers_witness:
  "t_assignedUsers (sampleTask\<lparr>t_assignedUsers := None\<rparr>) = None \<and>
   (\<exists>newTask.
      tasks (addTask sampleEnv (sampleTask\<lparr>t_assignedUsers := None\<rparr>) sampleState) =
        tasks sampleState @ [newTask] \<and>
      t_assignedUsers newTask = Some [''2'']) \<and>
   t_assignedUsers (sampleTask\<lparr>t_assignedUsers := Some [''2'', ''3'']\<rparr>) = Some [''2'', ''3''] \<and>
   (\<exists>newTask.
      tasks (addTask sampleEnv (sampleTask\<lparr>t_assignedUsers := Some [''2'', ''3'']\<rparr>) sampleState) =
        tasks sampleState @ [newTask] \<and>
      t_assignedUsers newTask = Some [''2'', ''3''])"
  using addTask_assignedUsers [of sampleEnv "sampleTask\<lparr>t_assignedUsers := None\<rparr>" sampleState]
    addTask_assignedUsers
      [of sampleEnv "sampleTask\<lparr>t_assignedUsers := Some [''2'', ''3'']\<rparr>" sampleState]
  by (simp add: sampleTask_def)

text \<open>
  Claim C9. For an input with a non-empty \<^verbatim>\<open>assignedToId\<close>, \<^verbatim>\<open>addTask\<close>
  appends exactly two notifications, both addressed to that user and both carrying the new
  task's id and priority: the first titled "New task created", the second "Task assigned
  to you".
\<close>

theorem addTask_two_notifications:
  assumes "t_assignedToId taskData \<noteq> []"
  shows "\<exists>newTask n1 n2.
     tasks (addTask env taskData s) = tasks s @ [newTask] \<and>
     notifications (addTask env taskData s) = notifications s @ [n1, n2] \<and>
     n_title n1 = ''New task created'' \<and> n_title n2 = ''Task assigned to you'' \<and>
     n_userId n1 = t_assignedToId taskData \<and> n_userId n2 = t_assignedToId taskData \<and>
     n_taskId n1 = Some (t_id newTask) \<and> n_taskId n2 = Some (t_id newTask) \<and>
     n_priority n1 = Some (t_priority newTask) \<and> n_priority n2 = Some (t_priority newTask) \<and>
     n_type n1 = TaskNote \<and> n_type n2 = TaskNote \<and> \<not> n_isRead n1 \<and> \<not> n_isRead n2"
  using assms
  by (simp add: addTask_def Let_def generateTaskNotification_created
      generateTaskNotification_assigned notifications_addNotification)

theorem addTask_two_notifications_witness:
  "t_assignedToId sampleTask \<noteq> [] \<and>
   (\<exists>newTask n1 n2.
      tasks (addTask sampleEnv sampleTask sampleState) = tasks sampleState @ [newTask] \<and>
      notifications (addTask sampleEnv sampleTask sampleState) =
        notifications sampleState @ [n1, n2] \<and>
      n_title n1 = ''New task created'' \<and> n_title n2 = ''Task assigned to you'' \<and>
      n_userId n1 = ''2'' \<and> n_userId n2 = ''2'' \<and>
      n_taskId n1 = Some (t_id newTask) \<and> n_taskId n2 = Some (t_id newTask) \<and>
      n_priority n1 = Some (t_priority newTask) \<and> n_priority n2 = Some (t_priority newTask))"
proof -
  have h: "t_assignedToId sampleTask \<noteq> []"
    by (simp add: sampleTask_def)
  have to: "t_assignedToId sampleTask = ''2''"
    by (simp add: sampleTask_def)
  from addTask_two_notifications [OF h, of sampleEnv sampleState]
  obtain newTask n1 n2 where
    "tasks (addTask sampleEnv sampleTask sampleState) = tasks sampleState @ [newTask]"
    "notifications (addTask sampleEnv sampleTask sampleState) =
       notifications sampleState @ [n1, n2]"
    "n_title n1 = ''New task created''" "n_title n2 = ''Task assigned to you''"
    "n_userId n1 = ''2''" "n_userId n2 = ''2''"
    "n_taskId n1 = Some (t_id newTask)" "n_taskId n2 = Some (t_id newTask)"
    "n_priority n1 = Some (t_priority newTask)" "n_priority n2 = Some (t_priority newTask)"
    unfolding to by blast
  then show ?thesis
    using h by blast
qed

subsection \<open>Replacing the milestones of a task type\<close>

lemma list_ex_milestone_id:
  "list_ex (\<lambda>milestone. m_id milestone = x) ms = (x \<in> set (map m_id ms))"
  by (induction ms) auto

lemma tasks_syncTaskMilestones:
  "tasks (syncTaskMilestones env i ms st) =
     map (\<lambda>task.
            if t_taskTypeId task = i then
              task\<lparr>t_milestoneProgress :=
                     Some (filter (\<lambda>p. mp_milestoneId p \<in> set (map m_id ms)) (progressOf task)),
                   t_updatedAt := Some (int (now env))\<rparr>
            else task)
       (tasks st)"
  by (simp add: syncTaskMilestones_def Let_def list_ex_milestone_id)

lemma find_task_type_present:
  assumes "i \<in> set (map tt_id tts)"
  shows "\<exists>original. find (\<lambda>tt. tt_id tt = i) tts = Some original"
proof (cases "find (\<lambda>tt. tt_id tt = i) tts")
  case None
  then show ?thesis
    using assms by (auto simp: find_None_iff)
next
  case (Some original)
  then show ?thesis by simp
qed

lemma tasks_updateTaskType:
  assumes "ttp_milestones updates = Some ms" and "i \<in> set (map tt_id (taskTypes s))"
  shows "tasks (updateTaskType env i updates s) =
     map (\<lambda>task.
            if t_taskTypeId task = i then
              task\<lparr>t_milestoneProgress :=
                     Some (filter (\<lambda>p. mp_milestoneId p \<in> set (map m_id ms)) (progressOf task)),
                   t_updatedAt := Some (int (now env))\<rparr>
            else task)
       (tasks s)"
proof -
  obtain original where "find (\<lambda>tt. tt_id tt = i) (taskTypes s) = Some original"
    using find_task_type_present [OF assms(2)] by blast
  then show ?thesis
    using assms(1) by (simp add: updateTaskType_def Let_def tasks_syncTaskMilestones)
qed

lemma taskTypes_updateTaskType:
  "taskTypes (updateTaskType env i updates s) =
     map (\<lambda>taskType.
            if tt_id taskType = i then
              (mergeTaskType taskType updates)\<lparr>tt_updatedAt := Some (int (now env))\<rparr>
            else taskType)
       (taskTypes s)"
  by (simp add: updateTaskType_def Let_def syncTaskMilestones_def
      split: option.split)

text \<open>
  Claim C3. Let \<^verbatim>\<open>updateTaskType\<close> be called on an existing task type with a patch
  that carries a milestone list. The task type then holds the new list; the tasks keep their
  number and order; every task of that type has as its \<^verbatim>\<open>milestoneProgress\<close> the
  entries it had whose \<^verbatim>\<open>milestoneId\<close> is the id of a new milestone, unchanged and
  in their order, so no entry for a removed milestone is left and every entry for a
  surviving one is kept; every task of another type is as it was.
\<close>

theorem updateTaskType_prunes_progress:
  assumes "ttp_milestones updates = Some newMilestones"
    and "i \<in> set (map tt_id (taskTypes s))"
  shows "length (tasks (updateTaskType env i updates s)) = length (tasks s) \<and>
    (\<forall>k < length (tasks s).
       (t_taskTypeId (tasks s ! k) = i \<longrightarrow>
          t_milestoneProgress (tasks (updateTaskType env i updates s) ! k) =
            Some (filter (\<lambda>p. mp_milestoneId p \<in> set (map m_id newMilestones))
                    (progressOf (tasks s ! k))) \<and>
          t_taskTypeId (tasks (updateTaskType env i updates s) ! k) = i \<and>
          (\<forall>p \<in> set (progressOf (tasks (updateTaskType env i updates s) ! k)).
             mp_milestoneId p \<in> set (map m_id newMilestones) \<and>
             p \<in> set (progressOf (tasks s ! k))) \<and>
          (\<forall>p \<in> set (progressOf (tasks s ! k)).
             mp_milestoneId p \<in> set (map m_id newMilestones) \<longrightarrow>
             p \<in> set (progressOf (tasks (updateTaskType env i updates s) ! k)))) \<and>
       (t_taskTypeId (tasks s ! k) \<noteq> i \<longrightarrow>
          tasks (updateTaskType env i updates s) ! k = tasks s ! k)) \<and>
    length (taskTypes (updateTaskType env i updates s)) = length (taskTypes s) \<and>
    (\<forall>k < length (taskTypes s).
       tt_id (taskTypes s ! k) = i \<longrightarrow>
       tt_milestones (taskTypes (updateTaskType env i updates s) ! k) = newMilestones)"
proof -
  have types: "length (taskTypes (updateTaskType env i updates s)) = length (taskTypes s) \<and>
    (\<forall>k < length (taskTypes s).
       tt_id (taskTypes s ! k) = i \<longrightarrow>
       tt_milestones (taskTypes (updateTaskType env i updates s) ! k) = newMilestones)"
    using assms(1)
    by (simp add: taskTypes_updateTaskType mergeTaskType_def patched_def)
  have len: "length (tasks (updateTaskType env i updates s)) = length (tasks s)"
    by (simp add: tasks_updateTaskType [OF assms])
  have other: "tasks (updateTaskType env i updates s) ! k = tasks s ! k"
    if "k < length (tasks s)" "t_taskTypeId (tasks s ! k) \<noteq> i" for k
    using that by (simp add: tasks_updateTaskType [OF assms])
  have same: "t_milestoneProgress (tasks (updateTaskType env i updates s) ! k) =
        Some (filter (\<lambda>p. mp_milestoneId p \<in> set (map m_id newMilestones))
                (progressOf (tasks s ! k))) \<and>
      t_taskTypeId (tasks (updateTaskType env i updates s) ! k) = i"
    if "k < length (tasks s)" "t_taskTypeId (tasks s ! k) = i" for k
    using that by (simp add: tasks_updateTaskType [OF assms])
  have progress: "progressOf (tasks (updateTaskType env i updates s) ! k) =
      filter (\<lambda>p. mp_milestoneId p \<in> set (map m_id newMilestones)) (progressOf (tasks s ! k))"
    if "k < length (tasks s)" "t_taskTypeId (tasks s ! k) = i" for k
    using same [OF that] by (simp add: progressOf_def)
  show ?thesis
    using types len other same progress by auto
qed

theorem updateTaskType_prunes_progress_witness:
  "ttp_milestones (emptyTypePatch\<lparr>ttp_milestones := Some [hd sampleMilestones]\<rparr>) =
     Some [hd sampleMilestones] \<and>
   ''1'' \<in> set (map tt_id (taskTypes sampleState)) \<and>
   (0::nat) < length (tasks sampleState) \<and>
   t_taskTypeId (tasks sampleState ! 0) = ''1'' \<and>
   map mp_milestoneId (progressOf (tasks sampleState ! 0)) = [''1'', ''2''] \<and>
   t_milestoneProgress
     (tasks (updateTaskType sampleEnv ''1''
               (emptyTypePatch\<lparr>ttp_milestones := Some [hd sampleMilestones]\<rparr>) sampleState) ! 0) =
     Some [\<lparr>mp_milestoneId = ''1'', mp_completed = True, mp_completedAt = Some 1500,
            mp_completedById = Some ''2''\<rparr>]"
proof -
  let ?upd = "emptyTypePatch\<lparr>ttp_milestones := Some [hd sampleMilestones]\<rparr>"
  have h1: "ttp_milestones ?upd = Some [hd sampleMilestones]"
    by simp
  have h2: "''1'' \<in> set (map tt_id (taskTypes sampleState))"
    by (simp add: sampleState_def sampleTaskTypes_def)
  have h3: "(0::nat) < length (tasks sampleState)"
    by (simp add: sampleState_def)
  have h4: "t_taskTypeId (tasks sampleState ! 0) = ''1''"
    by (simp add: sampleState_def sampleTask_def)
  have before: "map mp_milestoneId (progressOf (tasks sampleState ! 0)) = [''1'', ''2'']"
    by (simp add: sampleState_def sampleTask_def progressOf_def)
  have "t_milestoneProgress (tasks (updateTaskType sampleEnv ''1'' ?upd sampleState) ! 0) =
      Some (filter (\<lambda>p. mp_milestoneId p \<in> set (map m_id [hd sampleMilestones]))
              (progressOf (tasks sampleState ! 0)))"
    using updateTaskType_prunes_progress [OF h1 h2, of sampleEnv] h3 h4 by blast
  then have "t_milestoneProgress (tasks (updateTaskType sampleEnv ''1'' ?upd sampleState) ! 0) =
      Some [\<lparr>mp_milestoneId = ''1'', mp_completed = True, mp_completedAt = Some 1500,
             mp_completedById = Some ''2''\<rparr>]"
    by (simp add: sampleState_def sampleTask_def sampleMilestones_def progressOf_def)
  then show ?thesis
    using h1 h2 h3 h4 before by blast
qed

subsection \<open>Updating a task\<close>

lemma find_Some_position:
  assumes "find P xs = Some x"
  shows "\<exists>k < length xs. xs ! k = x \<and> P x \<and> (\<forall>j < k. \<not> P (xs ! j))"
  using assms by (auto simp: find_Some_iff)

lemma tasks_updateTask:
  assumes "find (\<lambda>t. t_id t = i) (tasks s) = Some originalTask"
  shows "tasks (updateTask env i updates s) =
     map (\<lambda>task. if t_id task = i then updatedTaskOf env s originalTask updates else task)
       (tasks s)"
  using assms by (simp add: updateTask_def Let_def split: option.split)

lemma activityLog_status_changed:
  assumes "p_status updates = Some newStatus" and "newStatus \<noteq> t_status originalTask"
  shows "t_activityLog (updatedTaskOf env snap originalTask updates) =
     Some (logOf originalTask @ [activityEntry env snap originalTask updates newStatus])"
  using assms by (simp add: updatedTaskOf_def)

lemma activityLog_status_kept:
  assumes "p_status updates = None \<or> p_status updates = Some (t_status originalTask)"
  shows "t_activityLog (updatedTaskOf env snap originalTask updates) =
     (case p_activityLog updates of
        None \<Rightarrow> t_activityLog originalTask
      | Some l \<Rightarrow> l)"
  using assms by (auto simp: updatedTaskOf_def mergeTask_def patched_def)

lemma activityEntry_action:
  "a_action (activityEntry env snap originalTask updates newStatus) =
     ''Status changed from '' @
       replaceFirst (CHR ''-'') (CHR '' '') (statusString (t_status originalTask)) @
       '' to '' @ replaceFirst (CHR ''-'') (CHR '' '') (statusString newStatus)"
  "a_timestamp (activityEntry env snap originalTask updates newStatus) = int (now env)"
  by (simp_all add: activityEntry_def Let_def)

text \<open>
  Claim C5, as stated, fails on a patch that has an \<^verbatim>\<open>activityLog\<close> property and
  no status: the shallow merge replaces the log. Here the patch \<^verbatim>\<open>{activityLog: []}\<close>
  empties the one-entry log of the sample task, and the patch
  \<^verbatim>\<open>{activityLog: undefined}\<close> leaves the task without a log.
\<close>

theorem updateTask_activityLog_counterexample:
  "p_status (emptyPatch\<lparr>p_activityLog := Some (Some [])\<rparr>) = None \<and>
   p_status (emptyPatch\<lparr>p_activityLog := Some None\<rparr>) = None \<and>
   map t_id (tasks sampleState) = [''1''] \<and>
   map (length \<circ> logOf) (tasks sampleState) = [1] \<and>
   map t_activityLog
     (tasks (updateTask sampleEnv ''1'' (emptyPatch\<lparr>p_activityLog := Some (Some [])\<rparr>)
               sampleState)) =
     [Some []] \<and>
   map t_activityLog
     (tasks (updateTask sampleEnv ''1'' (emptyPatch\<lparr>p_activityLog := Some None\<rparr>)
               sampleState)) =
     [None]"
  by (simp add: sample_defs updateTask_def updatedTaskOf_def mergeTask_def patched_def
      logOf_def)

text \<open>
  Claim C5, amended. Let \<^verbatim>\<open>updateTask\<close> find a task with the id (the first one in
  the list). The tasks keep their number and order and every task with another id is as it
  was. When the patch carries a status that differs from the found task's status, the
  \<^verbatim>\<open>activityLog\<close> stored under that id is the found task's log with exactly one
  entry appended, whose action reads "Status changed from <old> to <new>" (the first hyphen
  of a status written as a space) and whose time is the clock's; a log carried by the patch
  is not used. When the patch carries no status or the task's own status, the log is the
  found task's log if the patch has no \<^verbatim>\<open>activityLog\<close> property, and otherwise
  the value of that property: a list, or \<^verbatim>\<open>undefined\<close>, which erases the log.
\<close>

theorem updateTask_activityLog:
  assumes "find (\<lambda>t. t_id t = i) (tasks s) = Some originalTask"
  shows "length (tasks (updateTask env i updates s)) = length (tasks s) \<and>
    (\<exists>k0 < length (tasks s). tasks s ! k0 = originalTask \<and> t_id originalTask = i) \<and>
    (\<forall>k < length (tasks s).
       (t_id (tasks s ! k) \<noteq> i \<longrightarrow> tasks (updateTask env i updates s) ! k = tasks s ! k) \<and>
       (t_id (tasks s ! k) = i \<longrightarrow>
          (\<forall>newStatus.
             p_status updates = Some newStatus \<and> newStatus \<noteq> t_status originalTask \<longrightarrow>
             (\<exists>entry.
                t_activityLog (tasks (updateTask env i updates s) ! k) =
                  Some (logOf originalTask @ [entry]) \<and>
                a_action entry =
                  ''Status changed from '' @
                    replaceFirst (CHR ''-'') (CHR '' '') (statusString (t_status originalTask)) @
                    '' to '' @ replaceFirst (CHR ''-'') (CHR '' '') (statusString newStatus) \<and>
                a_timestamp entry = int (now env))) \<and>
          (p_status updates = None \<or> p_status updates = Some (t_status originalTask) \<longrightarrow>
             t_activityLog (tasks (updateTask env i updates s) ! k) =
               (case p_activityLog updates of
                  None \<Rightarrow> t_activityLog originalTask
                | Some l \<Rightarrow> l))))"
proof -
  note tasks' = tasks_updateTask [OF assms, of env updates]
  have len: "length (tasks (updateTask env i updates s)) = length (tasks s)"
    by (simp add: tasks')
  have pos: "\<exists>k0 < length (tasks s). tasks s ! k0 = originalTask \<and> t_id originalTask = i"
    using find_Some_position [OF assms] by blast
  have other: "tasks (updateTask env i updates s) ! k = tasks s ! k"
    if "k < length (tasks s)" "t_id (tasks s ! k) \<noteq> i" for k
    using that by (simp add: tasks')
  have same: "tasks (updateTask env i updates s) ! k = updatedTaskOf env s originalTask updates"
    if "k < length (tasks s)" "t_id (tasks s ! k) = i" for k
    using that by (simp add: tasks')
  have changed: "\<exists>entry.
      t_activityLog (updatedTaskOf env s originalTask updates) =
        Some (logOf originalTask @ [entry]) \<and>
      a_action entry =
        ''Status changed from '' @
          replaceFirst (CHR ''-'') (CHR '' '') (statusString (t_status originalTask)) @
          '' to '' @ replaceFirst (CHR ''-'') (CHR '' '') (statusString newStatus) \<and>
      a_timestamp entry = int (now env)"
    if "p_status updates = Some newStatus" "newStatus \<noteq> t_status originalTask" for newStatus
    using activityLog_status_changed [OF that, of env s] activityEntry_action
    by blast
  have kept: "t_activityLog (updatedTaskOf env s originalTask updates) =
      (case p_activityLog updates of None \<Rightarrow> t_activityLog originalTask | Some l \<Rightarrow> l)"
    if "p_status updates = None \<or> p_status updates = Some (t_status originalTask)"
    using activityLog_status_kept [OF that] .
  show ?thesis
    using len pos other same changed kept by simp
qed

theorem updateTask_activityLog_witness:
  "find (\<lambda>t. t_id t = ''1'') (tasks sampleState) = Some sampleTask \<and>
   (0::nat) < length (tasks sampleState) \<and>
   t_id (tasks sampleState ! 0) = ''1'' \<and>
   p_status (emptyPatch\<lparr>p_status := Some InProgress\<rparr>) = Some InProgress \<and>
   InProgress \<noteq> t_status sampleTask \<and>
   (\<exists>entry.
      t_activityLog
        (tasks (updateTask sampleEnv ''1'' (emptyPatch\<lparr>p_status := Some InProgress\<rparr>)
                  sampleState) ! 0) =
        Some (logOf sampleTask @ [entry]) \<and>
      a_action entry = ''Status changed from pending to in progress'' \<and>
      a_timestamp entry = 5000) \<and>
   p_status emptyPatch = None \<and>
   t_activityLog (tasks (updateTask sampleEnv ''1'' emptyPatch sampleState) ! 0) =
     t_activityLog sampleTask \<and>
   p_status (emptyPatch\<lparr>p_activityLog := Some None\<rparr>) = None \<and>
   t_activityLog
     (tasks (updateTask sampleEnv ''1'' (emptyPatch\<lparr>p_activityLog := Some None\<rparr>)
               sampleState) ! 0) = None"
proof -
  have f: "find (\<lambda>t. t_id t = ''1'') (tasks sampleState) = Some sampleTask"
    by (simp add: sampleState_def sampleTask_def)
  have k: "(0::nat) < length (tasks sampleState)" "t_id (tasks sampleState ! 0) = ''1''"
    by (simp_all add: sampleState_def sampleTask_def)
  have st: "p_status (emptyPatch\<lparr>p_status := Some InProgress\<rparr>) = Some InProgress"
    "InProgress \<noteq> t_status sampleTask" "p_status emptyPatch = None"
    "p_activityLog emptyPatch = None"
    by (simp_all add: sampleTask_def emptyPatch_def)
  have rendered: "''Status changed from '' @
      replaceFirst (CHR ''-'') (CHR '' '') (statusString (t_status sampleTask)) @
      '' to '' @ replaceFirst (CHR ''-'') (CHR '' '') (statusString InProgress) =
      ''Status changed from pending to in progress''"
    by (simp add: sampleTask_def)
  have clock: "int (now sampleEnv) = 5000"
    by (simp add: sampleEnv_def)
  have "\<exists>entry.
      t_activityLog
        (tasks (updateTask sampleEnv ''1'' (emptyPatch\<lparr>p_status := Some InProgress\<rparr>)
                  sampleState) ! 0) =
        Some (logOf sampleTask @ [entry]) \<and>
      a_action entry =
        ''Status changed from '' @
          replaceFirst (CHR ''-'') (CHR '' '') (statusString (t_status sampleTask)) @
          '' to '' @ replaceFirst (CHR ''-'') (CHR '' '') (statusString InProgress) \<and>
      a_timestamp entry = int (now sampleEnv)"
    using updateTask_activityLog
      [OF f, of sampleEnv "emptyPatch\<lparr>p_status := Some InProgress\<rparr>"] k st(1,2)
    by blast
  then have a: "\<exists>entry.
      t_activityLog
        (tasks (updateTask sampleEnv ''1'' (emptyPatch\<lparr>p_status := Some InProgress\<rparr>)
                  sampleState) ! 0) =
        Some (logOf sampleTask @ [entry]) \<and>
      a_action entry = ''Status changed from pending to in progress'' \<and>
      a_timestamp entry = 5000"
    unfolding rendered clock .
  have b: "t_activityLog (tasks (updateTask sampleEnv ''1'' emptyPatch sampleState) ! 0) =
      t_activityLog sampleTask"
    using updateTask_activityLog [OF f, of sampleEnv emptyPatch] k st(3,4) by simp
  have erased: "p_status (emptyPatch\<lparr>p_activityLog := Some None\<rparr>) = None"
    "p_activityLog (emptyPatch\<lparr>p_activityLog := Some None\<rparr>) = Some None"
    by (simp_all add: emptyPatch_def)
  have c: "t_activityLog
      (tasks (updateTask sampleEnv ''1'' (emptyPatch\<lparr>p_activityLog := Some None\<rparr>)
                sampleState) ! 0) = None"
    using updateTask_activityLog
      [OF f, of sampleEnv "emptyPatch\<lparr>p_activityLog := Some None\<rparr>"] k erased
    by simp
  show ?thesis
    using f k st(1,2,3) a b erased(1) c by (intro conjI)
qed

text \<open>What \<^verbatim>\<open>updateTask\<close> records: one notification whenever the patch carries a status.\<close>

lemma updateTask_status_notification:
  assumes "find (\<lambda>t. t_id t = i) (tasks s) = Some originalTask"
  shows "map n_title
     (drop (length (notifications s)) (notifications (updateTask env i updates s))) =
     (case p_status updates of
        None \<Rightarrow> []
      | Some newStatus \<Rightarrow>
          if newStatus = Completed then
            (if t_assignedById (updatedTaskOf env s originalTask updates) \<noteq> []
             then [''Task completed''] else [])
          else
            (if t_assignedToId (updatedTaskOf env s originalTask updates) \<noteq> []
             then [''Task updated''] else []))"
  using assms
  by (simp add: updateTask_def Let_def generateTaskNotification_updated
      generateTaskNotification_completed notifications_addNotification
      split: option.split)

text \<open>
  Claim C4 says that no status notification is sent when the patch's status equals the
  task's status. The code sends one whenever the patch carries a status: the test before
  \<^verbatim>\<open>generateTaskNotification\<close> is \<^verbatim>\<open>if (updates.status)\<close>, without the comparison
  with the prior status that the activity-log branch above it makes. On the pending sample
  task, the patch \<^verbatim>\<open>{status: 'pending'}\<close> records "Task updated" for the assignee and
  appends nothing to the activity log; on a completed task, the patch
  \<^verbatim>\<open>{status: 'completed'}\<close> records "Task completed" for the assigner again.
\<close>

theorem updateTask_unchanged_status_notifies:
  "map t_status (tasks sampleState) = [Pending] \<and>
   notifications sampleState = [] \<and>
   map n_title
     (notifications
        (updateTask sampleEnv ''1'' (emptyPatch\<lparr>p_status := Some Pending\<rparr>) sampleState)) =
     [''Task updated''] \<and>
   map n_userId
     (notifications
        (updateTask sampleEnv ''1'' (emptyPatch\<lparr>p_status := Some Pending\<rparr>) sampleState)) =
     [''2''] \<and>
   map t_activityLog
     (tasks (updateTask sampleEnv ''1'' (emptyPatch\<lparr>p_status := Some Pending\<rparr>) sampleState)) =
     map t_activityLog (tasks sampleState) \<and>
   map n_title
     (notifications
        (updateTask sampleEnv ''1'' (emptyPatch\<lparr>p_status := Some Completed\<rparr>)
           (sampleState\<lparr>tasks := [sampleTask\<lparr>t_status := Completed\<rparr>]\<rparr>))) =
     [''Task completed'']"
  by (simp add: sample_defs updateTask_def updatedTaskOf_def mergeTask_def patched_def
      Let_def generateTaskNotification_arms notifications_addNotification)

subsection \<open>Chat messages\<close>

lemma notifications_addChatMessage_no_task:
  assumes "find (\<lambda>t. t_id t = cm_taskId messageData) (tasks s) = None"
  shows "notifications (addChatMessage env messageData s) = notifications s"
  using assms by (simp add: addChatMessage_def generateMessageNotification_def Let_def)

lemma notifications_addChatMessage:
  assumes "find (\<lambda>t. t_id t = cm_taskId messageData) (tasks s) = Some task"
  shows "notifications (addChatMessage env messageData s) =
     notifications s @
       map (\<lambda>userId.
              NotificationData.extend
                \<lparr>n_type = MessageNote, n_title = ''New message in '' @ t_title task,
                 n_message =
                   lookupUserName (users s) (cm_userId messageData) ''Unknown User'' @ '': '' @
                   take 50 (cm_message messageData) @
                   (if length (cm_message messageData) > 50 then ''...'' else []),
                 n_isRead = False, n_userId = userId, n_taskId = Some (t_id task),
                 n_priority = None\<rparr>
                (Notification.fields (toString (now env)) (int (now env))))
         (filter (\<lambda>r. r \<noteq> [])
            (filter (\<lambda>r. r \<noteq> cm_userId messageData)
               [t_assignedToId task, t_assignedById task]))"
  using assms
  by (simp add: addChatMessage_def generateMessageNotification_def Let_def
      notifications_addNotification)

text \<open>
  Claim C7, as stated, fails for a participant whose id is the empty string: the loop
  skips a falsy \<^verbatim>\<open>userId\<close>. The sample task with an empty \<^verbatim>\<open>assignedById\<close>
  gets a message from its assignee; the assigner's id differs from the sender's, and
  nothing is recorded.
\<close>

theorem addChatMessage_empty_id_counterexample:
  "map t_id (tasks (sampleState\<lparr>tasks := [sampleTask\<lparr>t_assignedById := []\<rparr>]\<rparr>)) =
     [cm_taskId sampleMessage] \<and>
   t_assignedById (sampleTask\<lparr>t_assignedById := []\<rparr>) \<noteq> cm_userId sampleMessage \<and>
   notifications
     (addChatMessage sampleEnv sampleMessage
        (sampleState\<lparr>tasks := [sampleTask\<lparr>t_assignedById := []\<rparr>]\<rparr>)) = []"
  by (simp add: sample_defs addChatMessage_def generateMessageNotification_def Let_def)

text \<open>
  Claim C7, amended. When no task has the message's \<^verbatim>\<open>taskId\<close>,
  \<^verbatim>\<open>addChatMessage\<close> records no notification. Otherwise it appends one notification
  for each of the found task's \<^verbatim>\<open>assignedToId\<close> and \<^verbatim>\<open>assignedById\<close>, in
  this order, that is non-empty and differs from the sender's \<^verbatim>\<open>userId\<close>, and no
  other: so none for the sender. Each is an unread message notification for the task,
  titled "New message in <task title>", whose body is the sender's name ("Unknown User"
  when no user with a name has the sender's id), a colon and a space, and the first 50
  characters of the message, followed by "..." exactly when the message has more than 50.
\<close>

theorem addChatMessage_notifies_participants:
  "(find (\<lambda>t. t_id t = cm_taskId messageData) (tasks s) = None \<longrightarrow>
      notifications (addChatMessage env messageData s) = notifications s) \<and>
   (\<forall>task.
      find (\<lambda>t. t_id t = cm_taskId messageData) (tasks s) = Some task \<longrightarrow>
      (\<exists>new.
         notifications (addChatMessage env messageData s) = notifications s @ new \<and>
         map n_userId new =
           filter (\<lambda>r. r \<noteq> [])
             (filter (\<lambda>r. r \<noteq> cm_userId messageData)
                [t_assignedToId task, t_assignedById task]) \<and>
         (\<forall>n \<in> set new.
            n_userId n \<noteq> cm_userId messageData \<and>
            n_type n = MessageNote \<and> \<not> n_isRead n \<and> n_taskId n = Some (t_id task) \<and>
            n_title n = ''New message in '' @ t_title task \<and>
            n_message n =
              lookupUserName (users s) (cm_userId messageData) ''Unknown User'' @ '': '' @
              take 50 (cm_message messageData) @
              (if length (cm_message messageData) > 50 then ''...'' else []))))"
proof (intro conjI impI allI)
  assume "find (\<lambda>t. t_id t = cm_taskId messageData) (tasks s) = None"
  then show "notifications (addChatMessage env messageData s) = notifications s"
    by (rule notifications_addChatMessage_no_task)
next
  fix task
  assume found: "find (\<lambda>t. t_id t = cm_taskId messageData) (tasks s) = Some task"
  let ?recipients = "filter (\<lambda>r. r \<noteq> [])
    (filter (\<lambda>r. r \<noteq> cm_userId messageData) [t_assignedToId task, t_assignedById task])"
  let ?note = "\<lambda>userId.
    NotificationData.extend
      \<lparr>n_type = MessageNote, n_title = ''New message in '' @ t_title task,
       n_message =
         lookupUserName (users s) (cm_userId messageData) ''Unknown User'' @ '': '' @
         take 50 (cm_message messageData) @
         (if length (cm_message messageData) > 50 then ''...'' else []),
       n_isRead = False, n_userId = userId, n_taskId = Some (t_id task),
       n_priority = None\<rparr>
      (Notification.fields (toString (now env)) (int (now env)))"
  have eq: "notifications (addChatMessage env messageData s) =
      notifications s @ map ?note ?recipients"
    using notifications_addChatMessage [OF found] .
  have ids: "map n_userId (map ?note ?recipients) = ?recipients"
    by (simp add: comp_def)
  have each: "\<forall>n \<in> set (map ?note ?recipients).
      n_userId n \<noteq> cm_userId messageData \<and>
      n_type n = MessageNote \<and> \<not> n_isRead n \<and> n_taskId n = Some (t_id task) \<and>
      n_title n = ''New message in '' @ t_title task \<and>
      n_message n =
        lookupUserName (users s) (cm_userId messageData) ''Unknown User'' @ '': '' @
        take 50 (cm_message messageData) @
        (if length (cm_message messageData) > 50 then ''...'' else [])"
    by auto
  show "\<exists>new.
      notifications (addChatMessage env messageData s) = notifications s @ new \<and>
      map n_userId new = ?recipients \<and>
      (\<forall>n \<in> set new.
         n_userId n \<noteq> cm_userId messageData \<and>
         n_type n = MessageNote \<and> \<not> n_isRead n \<and> n_taskId n = Some (t_id task) \<and>
         n_title n = ''New message in '' @ t_title task \<and>
         n_message n =
           lookupUserName (users s) (cm_userId messageData) ''Unknown User'' @ '': '' @
           take 50 (cm_message messageData) @
           (if length (cm_message messageData) > 50 then ''...'' else []))"
    using eq ids each by blast
qed

theorem addChatMessage_notifies_participants_witness:
  "find (\<lambda>t. t_id t = cm_taskId sampleMessage) (tasks sampleState) = Some sampleTask \<and>
   length (cm_message sampleMessage) = 55 \<and>
   (\<exists>n. notifications (addChatMessage sampleEnv sampleMessage sampleState) =
           notifications sampleState @ [n] \<and>
        n_userId n = ''1'' \<and>
        n_title n = ''New message in Tax Return Preparation'' \<and>
        n_message n =
          ''John Doe: Understood. I will begin reviewing the documents t...'') \<and>
   find (\<lambda>t. t_id t = cm_taskId (sampleMessage\<lparr>cm_taskId := ''99''\<rparr>)) (tasks sampleState) =
     None \<and>
   notifications
     (addChatMessage sampleEnv (sampleMessage\<lparr>cm_taskId := ''99''\<rparr>) sampleState) =
     notifications sampleState"
proof -
  have found: "find (\<lambda>t. t_id t = cm_taskId sampleMessage) (tasks sampleState) = Some sampleTask"
    by (simp add: sampleState_def sampleTask_def sampleMessage_def)
  have missing:
    "find (\<lambda>t. t_id t = cm_taskId (sampleMessage\<lparr>cm_taskId := ''99''\<rparr>)) (tasks sampleState) =
       None"
    by (simp add: sampleState_def sampleTask_def)
  have len: "length (cm_message sampleMessage) = 55"
    by (simp add: sampleMessage_def)
  have recipients: "filter (\<lambda>r. r \<noteq> [])
      (filter (\<lambda>r. r \<noteq> cm_userId sampleMessage)
         [t_assignedToId sampleTask, t_assignedById sampleTask]) = [''1'']"
    by (simp add: sampleTask_def sampleMessage_def)
  have title: "''New message in '' @ t_title sampleTask =
      ''New message in Tax Return Preparation''"
    by (simp add: sampleTask_def)
  have body: "lookupUserName (users sampleState) (cm_userId sampleMessage) ''Unknown User'' @
      '': '' @ take 50 (cm_message sampleMessage) @
      (if length (cm_message sampleMessage) > 50 then ''...'' else []) =
      ''John Doe: Understood. I will begin reviewing the documents t...''"
    by (simp add: sampleState_def sampleUsers_def sampleMessage_def lookupUserName_def
        orElse_def)
  note inst = addChatMessage_notifies_participants
    [of sampleMessage sampleState sampleEnv, THEN conjunct2, THEN spec, of sampleTask,
     THEN mp, OF found, unfolded recipients title body]
  from inst obtain new where new:
    "notifications (addChatMessage sampleEnv sampleMessage sampleState) =
       notifications sampleState @ new"
    "map n_userId new = [''1'']"
    "\<forall>n \<in> set new.
       n_title n = ''New message in Tax Return Preparation'' \<and>
       n_message n = ''John Doe: Understood. I will begin reviewing the documents t...''"
    by auto
  from new(2) obtain n where n: "new = [n]" "n_userId n = ''1''"
    by (cases new) auto
  have first: "\<exists>n. notifications (addChatMessage sampleEnv sampleMessage sampleState) =
        notifications sampleState @ [n] \<and>
      n_userId n = ''1'' \<and>
      n_title n = ''New message in Tax Return Preparation'' \<and>
      n_message n = ''John Doe: Understood. I will begin reviewing the documents t...''"
    using new(1,3) n by auto
  have second: "notifications
      (addChatMessage sampleEnv (sampleMessage\<lparr>cm_taskId := ''99''\<rparr>) sampleState) =
      notifications sampleState"
    using addChatMessage_notifies_participants
      [of "sampleMessage\<lparr>cm_taskId := ''99''\<rparr>" sampleState sampleEnv,
       THEN conjunct1, THEN mp, OF missing] .
  show ?thesis
    using found len first missing second by (intro conjI)
qed

subsection \<open>The overdue scan\<close>

lemma overdueNotification_fields [simp]:
  "n_type (overdueNotification env snap task) = TaskNote"
  "n_title (overdueNotification env snap task) = ''Task overdue''"
  "n_isRead (overdueNotification env snap task) = False"
  "n_userId (overdueNotification env snap task) = t_assignedToId task"
  "n_taskId (overdueNotification env snap task) = Some (t_id task)"
  "n_priority (overdueNotification env snap task) = Some Urgent"
  by (simp_all add: overdueNotification_def)

lemma overdueEmitted_simps [simp]:
  "overdueEmitted env snap [] = []"
  "overdueEmitted env snap (task # ts) =
     (if isOverdue env task \<and> \<not> hasOverdueNotification (notifications snap) task \<and>
         t_assignedToId task \<noteq> []
      then [overdueNotification env snap task]
      else []) @ overdueEmitted env snap ts"
  by (simp_all add: overdueEmitted_def)

text \<open>The scan's loop, started from any store, appends the emitted notifications.\<close>

lemma scan_loop:
  "fold (\<lambda>task st.
           if isOverdue env task then
             (if \<not> hasOverdueNotification (notifications snap) task then
                generateTaskNotification env snap task EvOverdue st
              else st)
           else st)
     ts st =
   st\<lparr>notifications := notifications st @ overdueEmitted env snap ts\<rparr>"
proof (induction ts arbitrary: st)
  case Nil
  show ?case by simp
next
  case (Cons task ts)
  show ?case
    by (simp add: Cons.IH generateTaskNotification_overdue addNotification_def
        overdueNotification_def)
qed

lemma checkOverdueTasks_eq:
  "checkOverdueTasks env s =
     s\<lparr>notifications := notifications s @ overdueEmitted env s (tasks s)\<rparr>"
  unfolding checkOverdueTasks_def by (rule scan_loop)

lemma hasOverdueNotification_append:
  "hasOverdueNotification (ns @ ms) task =
     (hasOverdueNotification ns task \<or> hasOverdueNotification ms task)"
  by (simp add: hasOverdueNotification_def)

lemma hasOverdueNotification_same_id:
  "t_id task = t_id task' \<Longrightarrow>
     hasOverdueNotification ns task = hasOverdueNotification ns task'"
  by (simp add: hasOverdueNotification_def)

lemma hasOverdueNotification_own:
  "hasOverdueNotification [overdueNotification env snap task] task"
  by (simp add: hasOverdueNotification_def)

lemma overdueEmitted_covers:
  assumes "task \<in> set ts" and "isOverdue env task" and "t_assignedToId task \<noteq> []"
    and "\<not> hasOverdueNotification (notifications snap) task"
  shows "hasOverdueNotification (overdueEmitted env snap ts) task"
  using assms(1)
proof (induction ts)
  case Nil
  then show ?case by simp
next
  case (Cons x ts)
  show ?case
  proof (cases "x = task")
    case True
    then show ?thesis
      using assms(2,3,4) by (simp add: hasOverdueNotification_def)
  next
    case False
    then have "hasOverdueNotification (overdueEmitted env snap ts) task"
      using Cons by simp
    then show ?thesis
      by (simp add: hasOverdueNotification_def)
  qed
qed

lemma overdueEmitted_empty:
  assumes "\<forall>task \<in> set ts.
     \<not> (isOverdue env task \<and> \<not> hasOverdueNotification (notifications snap) task \<and>
         t_assignedToId task \<noteq> [])"
  shows "overdueEmitted env snap ts = []"
  using assms by (induction ts) auto

lemma overdueEmitted_for_id:
  "filter (\<lambda>n. n_taskId n = Some i) (overdueEmitted env snap ts) =
     overdueEmitted env snap (filter (\<lambda>task. t_id task = i) ts)"
  by (induction ts) auto

lemma filter_same_key_distinct:
  assumes "distinct (map f xs)" and "x \<in> set xs"
  shows "filter (\<lambda>y. f y = f x) xs = [x]"
  using assms
proof (induction xs)
  case Nil
  then show ?case by simp
next
  case (Cons y ys)
  show ?case
  proof (cases "y = x")
    case True
    then have "\<forall>z \<in> set ys. f z \<noteq> f x"
      using Cons.prems(1) by (auto simp: image_iff)
    then have "filter (\<lambda>z. f z = f x) ys = []"
      by (simp add: filter_empty_conv)
    then show ?thesis
      using True by simp
  next
    case False
    then have "x \<in> set ys"
      using Cons.prems(2) by simp
    moreover have "f y \<noteq> f x"
      using Cons.prems(1) \<open>x \<in> set ys\<close> by auto
    ultimately show ?thesis
      using Cons by simp
  qed
qed

lemma checkOverdueTasks_idem:
  "checkOverdueTasks env (checkOverdueTasks env s) = checkOverdueTasks env s"
proof -
  let ?s' = "checkOverdueTasks env s"
  have ts: "tasks ?s' = tasks s"
    and ns: "notifications ?s' = notifications s @ overdueEmitted env s (tasks s)"
    by (simp_all add: checkOverdueTasks_eq)
  have "\<forall>task \<in> set (tasks ?s').
      \<not> (isOverdue env task \<and> \<not> hasOverdueNotification (notifications ?s') task \<and>
          t_assignedToId task \<noteq> [])"
    unfolding ts ns hasOverdueNotification_append
    using overdueEmitted_covers [of _ "tasks s" env s] by blast
  then have "overdueEmitted env ?s' (tasks ?s') = []"
    by (rule overdueEmitted_empty)
  then show ?thesis
    by (simp add: checkOverdueTasks_eq [of env ?s'])
qed

lemma overdueEmitted_all:
  "\<forall>n \<in> set (overdueEmitted env s ts).
     n_type n = TaskNote \<and> n_title n = ''Task overdue'' \<and> n_priority n = Some Urgent"
  by (induction ts) auto

lemma overdueEmitted_one:
  assumes "k < length (tasks s)" and "distinct (map t_id (tasks s))"
    and "isOverdue env (tasks s ! k)" and "t_assignedToId (tasks s ! k) \<noteq> []"
    and "\<not> hasOverdueNotification (notifications s) (tasks s ! k)"
  shows "\<exists>n.
     filter (\<lambda>n. n_taskId n = Some (t_id (tasks s ! k))) (overdueEmitted env s (tasks s)) =
       [n] \<and>
     n_type n = TaskNote \<and> n_title n = ''Task overdue'' \<and> \<not> n_isRead n \<and>
     n_userId n = t_assignedToId (tasks s ! k) \<and> n_priority n = Some Urgent"
proof -
  have "tasks s ! k \<in> set (tasks s)"
    using assms(1) by simp
  then have "filter (\<lambda>task. t_id task = t_id (tasks s ! k)) (tasks s) = [tasks s ! k]"
    using filter_same_key_distinct [OF assms(2)] by blast
  then have
    "filter (\<lambda>n. n_taskId n = Some (t_id (tasks s ! k))) (overdueEmitted env s (tasks s)) =
       [overdueNotification env s (tasks s ! k)]"
    using assms(3,4,5) by (simp add: overdueEmitted_for_id)
  then show ?thesis
    by simp
qed

lemma overdueEmitted_none:
  assumes "hasOverdueNotification (notifications s) (tasks s ! k)"
  shows "filter (\<lambda>n. n_taskId n = Some (t_id (tasks s ! k))) (overdueEmitted env s (tasks s)) =
     []"
proof -
  have "\<forall>task \<in> set (filter (\<lambda>task. t_id task = t_id (tasks s ! k)) (tasks s)).
      \<not> (isOverdue env task \<and> \<not> hasOverdueNotification (notifications s) task \<and>
          t_assignedToId task \<noteq> [])"
  proof
    fix task
    assume "task \<in> set (filter (\<lambda>task. t_id task = t_id (tasks s ! k)) (tasks s))"
    then have "t_id task = t_id (tasks s ! k)"
      by simp
    then have "hasOverdueNotification (notifications s) task"
      using assms hasOverdueNotification_same_id by blast
    then show "\<not> (isOverdue env task \<and> \<not> hasOverdueNotification (notifications s) task \<and>
        t_assignedToId task \<noteq> [])"
      by simp
  qed
  then show ?thesis
    unfolding overdueEmitted_for_id by (rule overdueEmitted_empty)
qed

text \<open>
  Claim C2, as stated, fails for a recipient other than the one already told: the scan
  looks for an earlier overdue notification by task id alone. The sample task was reported
  overdue to user 2 and then transferred to user 3; it is still overdue, the scan records
  nothing, and no notification of the store is addressed to user 3.
\<close>

theorem checkOverdueTasks_recipient_counterexample:
  "isOverdue sampleEnv (sampleTask\<lparr>t_assignedToId := ''3''\<rparr>) \<and>
   t_assignedToId (sampleTask\<lparr>t_assignedToId := ''3''\<rparr>) = ''3'' \<and>
   n_userId sampleOverdueNotification = ''2'' \<and>
   tasks (sampleState\<lparr>tasks := [sampleTask\<lparr>t_assignedToId := ''3''\<rparr>],
                      notifications := [sampleOverdueNotification]\<rparr>) =
     [sampleTask\<lparr>t_assignedToId := ''3''\<rparr>] \<and>
   notifications
     (checkOverdueTasks sampleEnv
        (sampleState\<lparr>tasks := [sampleTask\<lparr>t_assignedToId := ''3''\<rparr>],
                      notifications := [sampleOverdueNotification]\<rparr>)) =
     [sampleOverdueNotification]"
  by (simp add: sample_defs checkOverdueTasks_eq isOverdue_def hasOverdueNotification_def)

text \<open>
  Claim C2, amended. The scan changes nothing but the notifications, to which it appends.
  For every task that is overdue (due before the clock's time, status neither completed
  nor approved), has a non-empty \<^verbatim>\<open>assignedToId\<close>, and for which the store holds no
  task notification with its id and a title containing "overdue" (whoever its recipient),
  in a store whose task ids are distinct, exactly one of the appended notifications
  carries the task's id: it is unread, titled "Task overdue", addressed to the task's
  \<^verbatim>\<open>assignedToId\<close>, with priority urgent whatever the task's priority. Every
  appended notification is titled "Task overdue" with priority urgent. For a task that
  already has such a notification nothing is appended, and scanning the resulting store
  again at the same time changes nothing.
\<close>

theorem checkOverdueTasks_once:
  "checkOverdueTasks env (checkOverdueTasks env s) = checkOverdueTasks env s \<and>
   (\<exists>new.
      checkOverdueTasks env s = s\<lparr>notifications := notifications s @ new\<rparr> \<and>
      (\<forall>n \<in> set new.
         n_type n = TaskNote \<and> n_title n = ''Task overdue'' \<and> n_priority n = Some Urgent) \<and>
      (\<forall>k < length (tasks s).
         (distinct (map t_id (tasks s)) \<and> isOverdue env (tasks s ! k) \<and>
          t_assignedToId (tasks s ! k) \<noteq> [] \<and>
          \<not> hasOverdueNotification (notifications s) (tasks s ! k) \<longrightarrow>
          (\<exists>n. filter (\<lambda>n. n_taskId n = Some (t_id (tasks s ! k))) new = [n] \<and>
               n_type n = TaskNote \<and> n_title n = ''Task overdue'' \<and> \<not> n_isRead n \<and>
               n_userId n = t_assignedToId (tasks s ! k) \<and>
               n_priority n = Some Urgent)) \<and>
         (hasOverdueNotification (notifications s) (tasks s ! k) \<longrightarrow>
          filter (\<lambda>n. n_taskId n = Some (t_id (tasks s ! k))) new = [])))"
proof -
  let ?new = "overdueEmitted env s (tasks s)"
  have per_task: "\<forall>k < length (tasks s).
      (distinct (map t_id (tasks s)) \<and> isOverdue env (tasks s ! k) \<and>
       t_assignedToId (tasks s ! k) \<noteq> [] \<and>
       \<not> hasOverdueNotification (notifications s) (tasks s ! k) \<longrightarrow>
       (\<exists>n. filter (\<lambda>n. n_taskId n = Some (t_id (tasks s ! k))) ?new = [n] \<and>
            n_type n = TaskNote \<and> n_title n = ''Task overdue'' \<and> \<not> n_isRead n \<and>
            n_userId n = t_assignedToId (tasks s ! k) \<and>
            n_priority n = Some Urgent)) \<and>
      (hasOverdueNotification (notifications s) (tasks s ! k) \<longrightarrow>
       filter (\<lambda>n. n_taskId n = Some (t_id (tasks s ! k))) ?new = [])"
  proof (intro allI impI conjI)
    fix k
    assume k: "k < length (tasks s)"
      and h: "distinct (map t_id (tasks s)) \<and> isOverdue env (tasks s ! k) \<and>
        t_assignedToId (tasks s ! k) \<noteq> [] \<and>
        \<not> hasOverdueNotification (notifications s) (tasks s ! k)"
    from h have h1: "distinct (map t_id (tasks s))" and h2: "isOverdue env (tasks s ! k)"
      and h3: "t_assignedToId (tasks s ! k) \<noteq> []"
      and h4: "\<not> hasOverdueNotification (notifications s) (tasks s ! k)"
      by simp_all
    show "\<exists>n. filter (\<lambda>n. n_taskId n = Some (t_id (tasks s ! k))) ?new = [n] \<and>
        n_type n = TaskNote \<and> n_title n = ''Task overdue'' \<and> \<not> n_isRead n \<and>
        n_userId n = t_assignedToId (tasks s ! k) \<and> n_priority n = Some Urgent"
      by (rule overdueEmitted_one [OF k h1 h2 h3 h4])
  next
    fix k
    assume "hasOverdueNotification (notifications s) (tasks s ! k)"
    then show "filter (\<lambda>n. n_taskId n = Some (t_id (tasks s ! k))) ?new = []"
      by (rule overdueEmitted_none)
  qed
  have "checkOverdueTasks env s = s\<lparr>notifications := notifications s @ ?new\<rparr> \<and>
      (\<forall>n \<in> set ?new.
         n_type n = TaskNote \<and> n_title n = ''Task overdue'' \<and> n_priority n = Some Urgent) \<and>
      (\<forall>k < length (tasks s).
         (distinct (map t_id (tasks s)) \<and> isOverdue env (tasks s ! k) \<and>
          t_assignedToId (tasks s ! k) \<noteq> [] \<and>
          \<not> hasOverdueNotification (notifications s) (tasks s ! k) \<longrightarrow>
          (\<exists>n. filter (\<lambda>n. n_taskId n = Some (t_id (tasks s ! k))) ?new = [n] \<and>
               n_type n = TaskNote \<and> n_title n = ''Task overdue'' \<and> \<not> n_isRead n \<and>
               n_userId n = t_assignedToId (tasks s ! k) \<and>
               n_priority n = Some Urgent)) \<and>
         (hasOverdueNotification (notifications s) (tasks s ! k) \<longrightarrow>
          filter (\<lambda>n. n_taskId n = Some (t_id (tasks s ! k))) ?new = []))"
    using checkOverdueTasks_eq [of env s] overdueEmitted_all [of env s "tasks s"] per_task
    by (intro conjI)
  then have "\<exists>new.
      checkOverdueTasks env s = s\<lparr>notifications := notifications s @ new\<rparr> \<and>
      (\<forall>n \<in> set new.
         n_type n = TaskNote \<and> n_title n = ''Task overdue'' \<and> n_priority n = Some Urgent) \<and>
      (\<forall>k < length (tasks s).
         (distinct (map t_id (tasks s)) \<and> isOverdue env (tasks s ! k) \<and>
          t_assignedToId (tasks s ! k) \<noteq> [] \<and>
          \<not> hasOverdueNotification (notifications s) (tasks s ! k) \<longrightarrow>
          (\<exists>n. filter (\<lambda>n. n_taskId n = Some (t_id (tasks s ! k))) new = [n] \<and>
               n_type n = TaskNote \<and> n_title n = ''Task overdue'' \<and> \<not> n_isRead n \<and>
               n_userId n = t_assignedToId (tasks s ! k) \<and>
               n_priority n = Some Urgent)) \<and>
         (hasOverdueNotification (notifications s) (tasks s ! k) \<longrightarrow>
          filter (\<lambda>n. n_taskId n = Some (t_id (tasks s ! k))) new = []))"
    by (rule exI [of _ ?new])
  with checkOverdueTasks_idem [of env s] show ?thesis
    by (intro conjI)
qed

theorem checkOverdueTasks_once_witness:
  "(0::nat) < length (tasks sampleState) \<and>
   distinct (map t_id (tasks sampleState)) \<and>
   isOverdue sampleEnv (tasks sampleState ! 0) \<and>
   t_priority (tasks sampleState ! 0) = High \<and>
   t_assignedToId (tasks sampleState ! 0) = ''2'' \<and>
   \<not> hasOverdueNotification (notifications sampleState) (tasks sampleState ! 0) \<and>
   (\<exists>new n.
      checkOverdueTasks sampleEnv sampleState =
        sampleState\<lparr>notifications := notifications sampleState @ new\<rparr> \<and>
      filter (\<lambda>n. n_taskId n = Some ''1'') new = [n] \<and>
      n_title n = ''Task overdue'' \<and> n_userId n = ''2'' \<and> n_priority n = Some Urgent) \<and>
   hasOverdueNotification (notifications (checkOverdueTasks sampleEnv sampleState))
     (tasks (checkOverdueTasks sampleEnv sampleState) ! 0) \<and>
   checkOverdueTasks sampleEnv (checkOverdueTasks sampleEnv sampleState) =
     checkOverdueTasks sampleEnv sampleState"
proof -
  have h: "(0::nat) < length (tasks sampleState)" "distinct (map t_id (tasks sampleState))"
    "isOverdue sampleEnv (tasks sampleState ! 0)"
    "t_assignedToId (tasks sampleState ! 0) \<noteq> []"
    "\<not> hasOverdueNotification (notifications sampleState) (tasks sampleState ! 0)"
    by (simp_all add: sample_defs isOverdue_def hasOverdueNotification_def)
  have v: "t_priority (tasks sampleState ! 0) = High"
    "t_assignedToId (tasks sampleState ! 0) = ''2''" "t_id (tasks sampleState ! 0) = ''1''"
    by (simp_all add: sample_defs)
  note whole = checkOverdueTasks_once [of sampleEnv sampleState]
  from whole [THEN conjunct2] obtain new where new:
    "checkOverdueTasks sampleEnv sampleState =
       sampleState\<lparr>notifications := notifications sampleState @ new\<rparr>"
    "\<forall>k < length (tasks sampleState).
       (distinct (map t_id (tasks sampleState)) \<and> isOverdue sampleEnv (tasks sampleState ! k) \<and>
        t_assignedToId (tasks sampleState ! k) \<noteq> [] \<and>
        \<not> hasOverdueNotification (notifications sampleState) (tasks sampleState ! k) \<longrightarrow>
        (\<exists>n. filter (\<lambda>n. n_taskId n = Some (t_id (tasks sampleState ! k))) new = [n] \<and>
             n_type n = TaskNote \<and> n_title n = ''Task overdue'' \<and> \<not> n_isRead n \<and>
             n_userId n = t_assignedToId (tasks sampleState ! k) \<and>
             n_priority n = Some Urgent))"
    by blast
  from new(2) h obtain n where n:
    "filter (\<lambda>n. n_taskId n = Some (t_id (tasks sampleState ! 0))) new = [n]"
    "n_type n = TaskNote" "n_title n = ''Task overdue''"
    "n_userId n = t_assignedToId (tasks sampleState ! 0)" "n_priority n = Some Urgent"
    by blast
  have first: "\<exists>new n.
      checkOverdueTasks sampleEnv sampleState =
        sampleState\<lparr>notifications := notifications sampleState @ new\<rparr> \<and>
      filter (\<lambda>n. n_taskId n = Some ''1'') new = [n] \<and>
      n_title n = ''Task overdue'' \<and> n_userId n = ''2'' \<and> n_priority n = Some Urgent"
    using new(1) n unfolding v by blast
  have "n \<in> set new" "n_taskId n = Some ''1''"
    using n(1) filter_eq_ConsD [of "\<lambda>n. n_taskId n = Some (t_id (tasks sampleState ! 0))" new n "[]"]
    unfolding v by auto
  then have marked: "hasOverdueNotification
      (notifications (checkOverdueTasks sampleEnv sampleState))
      (tasks (checkOverdueTasks sampleEnv sampleState) ! 0)"
    using n(2,3) v(3) unfolding new(1)
    by (auto simp: hasOverdueNotification_def list_ex_iff)
  show ?thesis
    using h(1,2,3,5) v(1,2) first marked whole [THEN conjunct1] by (intro conjI)
qed

subsection \<open>Task numbers\<close>

lemma replicate_numeral:
  "replicate (numeral k) x = x # replicate (pred_numeral k) x"
  by (simp add: numeral_eq_Suc)

lemma task_number_of_addTask:
  "map t_taskNumber (tasks (addTask env taskData s)) =
     map t_taskNumber (tasks s) @ [generateTaskNumber (tasks s)]"
  by (simp add: addTask_def Let_def)

text \<open>Digits: the character at position \<open>k\<close> is a digit of value \<open>k\<close>.\<close>

lemma below_ten:
  assumes "k < (10::nat)"
  shows "k = 0 \<or> k = 1 \<or> k = 2 \<or> k = 3 \<or> k = 4 \<or> k = 5 \<or> k = 6 \<or> k = 7 \<or> k = 8 \<or> k = 9"
  using assms by arith

lemma digit_at:
  assumes "k < 10"
  shows "isDigit (''0123456789'' ! k)" and "digitVal (''0123456789'' ! k) = k"
  using below_ten [OF assms] by (auto simp: isDigit_def digitVal_def)

lemma toString_one_digit:
  "n < 10 \<Longrightarrow> toString n = [''0123456789'' ! n]"
  by (simp add: toString.simps)

lemma toString_two_digits:
  assumes "10 \<le> n" and "n < 100"
  shows "toString n = [''0123456789'' ! (n div 10), ''0123456789'' ! (n mod 10)]"
proof -
  have "n div 10 < 10"
    using assms(2) by arith
  then show ?thesis
    using assms(1) by (subst toString.simps) (simp add: toString_one_digit)
qed

lemma toString_three_digits:
  assumes "100 \<le> n" and "n < 1000"
  shows "toString n =
     [''0123456789'' ! (n div 100), ''0123456789'' ! (n div 10 mod 10),
      ''0123456789'' ! (n mod 10)]"
proof -
  have "10 \<le> n div 10" and "n div 10 < 100" and "n div 10 div 10 = n div 100"
    using assms by arith+
  then show ?thesis
    using assms(1) by (subst toString.simps) (simp add: toString_two_digits)
qed

lemma three_digit_value:
  "100 * (n div 100) + 10 * (n div 10 mod 10) + n mod 10 = (n::nat)"
proof -
  have a: "n mod 100 = 10 * (n div 10 mod 10) + n mod 10"
    using mod_mult2_eq [of n 10 10] by simp
  have b: "100 * (n div 100) + n mod 100 = n"
    by simp
  show ?thesis
    using a b by linarith
qed

text \<open>Below 1000 the padded rendering has exactly three digits.\<close>

lemma padStart_three:
  assumes "n < 1000"
  shows "padStart 3 (CHR ''0'') (toString n) =
     [''0123456789'' ! (n div 100), ''0123456789'' ! (n div 10 mod 10),
      ''0123456789'' ! (n mod 10)]"
proof -
  consider "n < 10" | "10 \<le> n" "n < 100" | "100 \<le> n"
    by arith
  then show ?thesis
  proof cases
    case 1
    then show ?thesis
      by (simp add: padStart_def toString_one_digit replicate_numeral)
  next
    case 2
    then have "n div 100 = 0"
      by simp
    then show ?thesis
      using 2 by (simp add: padStart_def toString_two_digits)
  next
    case 3
    then show ?thesis
      using assms by (simp add: padStart_def toString_three_digits)
  qed
qed

lemma parse_three_digits:
  assumes "a < 10" and "b < 10" and "c < 10"
  shows "parseInt [''0123456789'' ! a, ''0123456789'' ! b, ''0123456789'' ! c] =
     Some (100 * a + 10 * b + c)"
  using digit_at [OF assms(1)] digit_at [OF assms(2)] digit_at [OF assms(3)]
  by (simp add: parseInt_def)

lemma rendered_number:
  assumes "n < 1000"
  shows "testTaskNumber (''T'' @ padStart 3 (CHR ''0'') (toString n))"
    and "parseInt (drop 1 (''T'' @ padStart 3 (CHR ''0'') (toString n))) = Some n"
proof -
  have d: "n div 100 < 10" "n div 10 mod 10 < 10" "n mod 10 < 10"
    using assms by arith+
  show "testTaskNumber (''T'' @ padStart 3 (CHR ''0'') (toString n))"
    using digit_at(1) [OF d(1)] digit_at(1) [OF d(2)] digit_at(1) [OF d(3)]
    by (simp add: padStart_three [OF assms] testTaskNumber_def)
  have "100 * (n div 100) + 10 * (n div 10 mod 10) + n mod 10 = n"
    by (rule three_digit_value)
  then show "parseInt (drop 1 (''T'' @ padStart 3 (CHR ''0'') (toString n))) = Some n"
    using parse_three_digits [OF d] by (simp add: padStart_three [OF assms])
qed

text \<open>On a number of the form T###, \<^verbatim>\<open>parseInt\<close> never gives \<^verbatim>\<open>NaN\<close>.\<close>

lemma parseInt_well_formed:
  assumes "testTaskNumber num"
  shows "parseInt (drop 1 num) = Some (parseDigits 0 (drop 1 num))" and "num \<noteq> []"
  using assms
  by (auto simp: testTaskNumber_def parseInt_def split: list.splits)

lemma existing_numbers:
  "List.map_filter parseInt
     (map (drop 1) (filter (\<lambda>num. num \<noteq> [] \<and> testTaskNumber num) nums)) =
   map (\<lambda>num. parseDigits 0 (drop 1 num)) (filter testTaskNumber nums)"
proof (induction nums)
  case Nil
  show ?case by (simp add: List.map_filter_simps)
next
  case (Cons num nums)
  show ?case
  proof (cases "testTaskNumber num")
    case True
    then show ?thesis
      using Cons parseInt_well_formed [OF True] by (simp add: List.map_filter_simps)
  next
    case False
    then show ?thesis
      using Cons by simp
  qed
qed

lemma Math_max_upper: "x \<in> set xs \<Longrightarrow> x \<le> Math_max xs"
  by (induction xs) auto

lemma Math_max_bounded: "\<forall>x \<in> set xs. x < b \<Longrightarrow> 0 < b \<Longrightarrow> Math_max xs < b"
  by (induction xs) auto

text \<open>
  While every three-digit suffix in the list is below 999, the generated number has the
  form T###, its suffix is greater than every such suffix, and no task of the list has it.
\<close>

lemma generateTaskNumber_fresh_below_999:
  assumes "\<forall>num \<in> set (filter testTaskNumber (map t_taskNumber ts)).
     parseDigits 0 (drop 1 num) < 999"
  shows "testTaskNumber (generateTaskNumber ts) \<and>
    (\<forall>num \<in> set (filter testTaskNumber (map t_taskNumber ts)).
       parseDigits 0 (drop 1 num) < parseDigits 0 (drop 1 (generateTaskNumber ts))) \<and>
    generateTaskNumber ts \<notin> set (map t_taskNumber ts)"
proof -
  let ?nums = "filter testTaskNumber (map t_taskNumber ts)"
  let ?existing = "map (\<lambda>num. parseDigits 0 (drop 1 num)) ?nums"
  let ?next = "if length ?existing > 0 then Math_max ?existing + 1 else 1"
  have gen: "generateTaskNumber ts = ''T'' @ padStart 3 (CHR ''0'') (toString ?next)"
    unfolding generateTaskNumber_def Let_def existing_numbers by simp
  have "Math_max ?existing < 999"
    using assms by (intro Math_max_bounded) auto
  then have small: "?next < 1000"
    by simp
  have form: "testTaskNumber (generateTaskNumber ts)"
    unfolding gen by (rule rendered_number(1) [OF small])
  have "parseInt (drop 1 (generateTaskNumber ts)) = Some ?next"
    unfolding gen by (rule rendered_number(2) [OF small])
  then have parsed: "parseDigits 0 (drop 1 (generateTaskNumber ts)) = ?next"
    using parseInt_well_formed(1) [OF form] by simp
  have greater: "parseDigits 0 (drop 1 num) < ?next" if "num \<in> set ?nums" for num
  proof -
    have mem: "parseDigits 0 (drop 1 num) \<in> set ?existing"
      using that by (simp add: image_iff) blast
    then have le: "parseDigits 0 (drop 1 num) \<le> Math_max ?existing"
      by (rule Math_max_upper)
    from mem have "0 < length ?existing"
      by (rule length_pos_if_in_set)
    then have eq: "?next = Math_max ?existing + 1"
      by (simp only: if_True)
    show ?thesis
      unfolding eq using le by linarith
  qed
  have fresh: "generateTaskNumber ts \<notin> set (map t_taskNumber ts)"
  proof
    assume "generateTaskNumber ts \<in> set (map t_taskNumber ts)"
    then have "generateTaskNumber ts \<in> set ?nums"
      using form by simp
    from greater [OF this] show False
      unfolding parsed by simp
  qed
  show ?thesis
    using form greater fresh unfolding parsed by blast
qed

text \<open>
  Claim C1 holds while the largest three-digit suffix is below 999 and fails from there
  on. With a task numbered T999 in the list, the next number is rendered with four digits,
  "T1000"; the scan's own pattern \<^verbatim>\<open>/^T\d{3}$/\<close> rejects that number, so the
  following call computes "T1000" again: two tasks share a number, and the numbers neither
  increase nor keep the three-digit form.
\<close>

theorem generateTaskNumber_after_T999:
  "generateTaskNumber [] = ''T001'' \<and>
   generateTaskNumber [sampleTask] = ''T002'' \<and>
   generateTaskNumber [sampleTask\<lparr>t_taskNumber := ''T999''\<rparr>] = ''T1000'' \<and>
   \<not> testTaskNumber ''T1000'' \<and>
   map t_taskNumber
     (tasks
        (addTask (sampleEnv\<lparr>now := 6000\<rparr>) sampleTask
           (addTask sampleEnv sampleTask
              (sampleState\<lparr>tasks := [sampleTask\<lparr>t_taskNumber := ''T999''\<rparr>]\<rparr>)))) =
     [''T999'', ''T1000'', ''T1000'']"
  by (simp add: task_number_of_addTask sample_defs generateTaskNumber_def Let_def
      testTaskNumber_def isDigit_def digitVal_def parseInt_def List.map_filter_simps
      padStart_def replicate_numeral toString.simps)

end
